theory Spec2Isabelle
  imports Main "HOL-Library.Word"
begin

section \<open>Shared data model (package garden / warden)\<close>

type_synonym uint32 = "32 word"
type_synonym uint64 = "64 word"

text \<open>
  \<^verbatim>\<open>type DiskLimits struct { BlockSoft, BlockHard, InodeSoft, InodeHard, ByteSoft, ByteHard uint64 }\<close>
  and \<^verbatim>\<open>type ContainerDiskStat struct { BytesUsed, InodesUsed uint64 }\<close>.
\<close>

record DiskLimits =
  BlockSoft :: uint64
  BlockHard :: uint64
  InodeSoft :: uint64
  InodeHard :: uint64
  ByteSoft :: uint64
  ByteHard :: uint64

record ContainerDiskStat =
  BytesUsed :: uint64
  InodesUsed :: uint64

record BandwidthLimits =
  RateInBytesPerSecond :: uint64
  BurstRateInBytesPerSecond :: uint64

record MemoryLimits =
  LimitInBytes :: uint64

record CPULimits =
  LimitInShares :: uint64

text \<open>
  Go errors are values. \<open>errors_New msg\<close> is \<^verbatim>\<open>errors.New(msg)\<close>,
  \<open>NumError_Range tok\<close> the range error of \<^verbatim>\<open>strconv.ParseUint\<close> on the token
  \<open>tok\<close>, and \<open>Opaque\<close> an error made outside the repository (by the command
  runner, the operating system, the network or the message codec).
\<close>

datatype error =
    errors_New string
  | NumError_Range string
  | Opaque string

section \<open>Quota backend (package quota\_manager)\<close>

text \<open>
  An \<^verbatim>\<open>exec.Cmd\<close> as far as the backend fills it in. The command runner is an
  interface of the repository's environment: \<open>RunCmd\<close> (its method \<^verbatim>\<open>Run\<close>)
  runs the command to its end, \<open>StartCmd\<close> (\<^verbatim>\<open>Start\<close>) only launches it; each
  yields the bytes the command writes to its standard output and the error of the call.
\<close>

record Cmd =
  Path :: string
  Args :: "string list"

record CommandRunner =
  RunCmd :: "Cmd \<Rightarrow> string \<times> error option"
  StartCmd :: "Cmd \<Rightarrow> string \<times> error option"

record LinuxQuotaManager =
  mountPoint :: string
  rootPath :: string
  runner :: CommandRunner

definition QUOTA_BLOCK_SIZE :: uint64 where
  "QUOTA_BLOCK_SIZE = 1024"

text \<open>\<^verbatim>\<open>fmt.Sprintf("%d", x)\<close> for an unsigned \<open>x\<close>: its decimal digits.\<close>

definition digit_char :: "nat \<Rightarrow> char" where
  "digit_char d = ''0123456789'' ! d"

fun fmt_d :: "nat \<Rightarrow> string" where
  "fmt_d n = (if n < 10 then [digit_char n] else fmt_d (n div 10) @ [digit_char (n mod 10)])"

declare fmt_d.simps [simp del]

text \<open>
  The two assignments at the head of \<^verbatim>\<open>SetLimits\<close>; \<open>limits\<close> is the callee's
  copy of the argument. The arithmetic is that of \<^verbatim>\<open>uint64\<close>: it wraps.
\<close>

definition SetLimits_convert :: "DiskLimits \<Rightarrow> DiskLimits" where
  "SetLimits_convert limits =
     (let limits1 =
            (if ByteSoft limits \<noteq> 0
             then limits\<lparr>BlockSoft := (ByteSoft limits + QUOTA_BLOCK_SIZE - 1) div QUOTA_BLOCK_SIZE\<rparr>
             else limits);
          limits2 =
            (if ByteHard limits1 \<noteq> 0
             then limits1\<lparr>BlockHard := (ByteHard limits1 + QUOTA_BLOCK_SIZE - 1) div QUOTA_BLOCK_SIZE\<rparr>
             else limits1)
      in limits2)"

text \<open>The \<^verbatim>\<open>setquota\<close> command \<^verbatim>\<open>SetLimits\<close> builds, and the call itself.\<close>

definition SetLimits_Cmd :: "LinuxQuotaManager \<Rightarrow> uint32 \<Rightarrow> DiskLimits \<Rightarrow> Cmd" where
  "SetLimits_Cmd m uid limits =
     (let limits' = SetLimits_convert limits
      in \<lparr>Path = ''setquota'',
          Args = [''-u'',
                  fmt_d (unat uid),
                  fmt_d (unat (BlockSoft limits')),
                  fmt_d (unat (BlockHard limits')),
                  fmt_d (unat (InodeSoft limits')),
                  fmt_d (unat (InodeHard limits')),
                  mountPoint m]\<rparr>)"

definition SetLimits :: "LinuxQuotaManager \<Rightarrow> uint32 \<Rightarrow> DiskLimits \<Rightarrow> error option" where
  "SetLimits m uid limits = snd (RunCmd (runner m) (SetLimits_Cmd m uid limits))"

text \<open>The spec's \<open>ceil(b / 1024)\<close>, over the natural numbers.\<close>

definition ceil_div :: "nat \<Rightarrow> nat \<Rightarrow> nat" where
  "ceil_div b k = (if b mod k = 0 then b div k else b div k + 1)"

subsection \<open>Mount discovery: \<^verbatim>\<open>New\<close>\<close>

text \<open>
  \<^verbatim>\<open>strings.Split(s, " ")\<close>: the pieces of \<open>s\<close> between single spaces (at least
  one piece, possibly empty), and \<^verbatim>\<open>strings.Trim(s, "\n")\<close>: \<open>s\<close> without its leading
  and trailing newlines.
\<close>

fun Split_on :: "char \<Rightarrow> string \<Rightarrow> string list" where
  "Split_on sep [] = [[]]"
| "Split_on sep (c # cs) =
     (if c = sep then [] # Split_on sep cs
      else (case Split_on sep cs of
              w # ws \<Rightarrow> (c # w) # ws
            | [] \<Rightarrow> [[c]]))"

definition Trim_char :: "char \<Rightarrow> string \<Rightarrow> string" where
  "Trim_char ch s = rev (dropWhile (\<lambda>c. c = ch) (rev (dropWhile (\<lambda>c. c = ch) s)))"

definition newline :: char where
  "newline = CHR 0x0A"

text \<open>
  \<^verbatim>\<open>quota_manager.New\<close> runs \<^verbatim>\<open>df -P containerDepotPath\<close>; an error of the run is returned,
  otherwise the last piece of the output is trimmed and cached. The index
  \<^verbatim>\<open>len(dfOutputWords)-1\<close> is in range, since \<open>Split_on\<close> never returns the empty list.
\<close>

definition quota_manager_New :: "string \<Rightarrow> string \<Rightarrow> CommandRunner \<Rightarrow> error + LinuxQuotaManager" where
  "quota_manager_New containerDepotPath rootPath' runner' =
     (case RunCmd runner' \<lparr>Path = ''df'', Args = [''-P'', containerDepotPath]\<rparr> of
        (dfOut, Some err) \<Rightarrow> Inl err
      | (dfOut, None) \<Rightarrow>
          (let dfOutputWords = Split_on CHR '' '' dfOut;
               mountPoint' = Trim_char newline (last dfOutputWords)
           in Inr \<lparr>mountPoint = mountPoint', rootPath = rootPath', runner = runner'\<rparr>))"

text \<open>
  The spec's words for the mount point, to compare \<open>quota_manager_New\<close> with: the last
  whitespace-separated token of the output's final line, that is, what stands between the
  last white space before the trailing white space and that trailing white space.
\<close>

definition isSpace :: "char \<Rightarrow> bool" where
  "isSpace c = (c \<in> {CHR '' '', CHR 0x09, CHR 0x0A, CHR 0x0B, CHR 0x0C, CHR 0x0D})"

definition last_whitespace_token :: "string \<Rightarrow> string" where
  "last_whitespace_token s = rev (takeWhile (\<lambda>c. \<not> isSpace c) (dropWhile isSpace (rev s)))"

subsection \<open>Reading limits and usage: \<^verbatim>\<open>fmt.Fscanf\<close> on the pipe\<close>

text \<open>
  \<^verbatim>\<open>GetLimits\<close> and \<^verbatim>\<open>GetUsage\<close> start \<^verbatim>\<open>repquota\<close> with its standard output on
  the write end of a pipe and scan the read end with the format
  \<^verbatim>\<open>"%d %d %d %d %d %d %d %d"\<close>. Both ends are closed by deferred calls, that is after
  the scan: while \<^verbatim>\<open>Fscanf\<close> runs this process still holds the write end, so a read
  past the bytes the tool wrote meets no end of file; it waits. The outcome of a call is
  therefore either that it does not return, or the pair of values Go returns.

  The scanner below follows the rules of package \<^verbatim>\<open>fmt\<close> for this format on ASCII
  input: a verb skips blanks and fails on a newline; a number is a non-empty run of decimal
  digits, ended by the first other byte (which must have arrived); it must fit 64 bits
  (\<^verbatim>\<open>strconv.ParseUint\<close>) and then the width of its target; a space of the format
  needs a blank of the input and takes all blanks up to the next newline. Bytes from 0x80
  on count as neither blank nor digit, and a number is taken to be shorter than the
  scanner's width limit of \<open>2\<^sup>3\<^sup>0\<close> bytes.
\<close>

datatype 'a outcome = Blocks | Returns 'a "error option"

datatype 'a scan = Waiting | Failed error | Scanned 'a string

definition isDigit :: "char \<Rightarrow> bool" where
  "isDigit c = (48 \<le> (of_char c :: nat) \<and> (of_char c :: nat) \<le> 57)"

fun SkipSpace :: "string \<Rightarrow> unit scan" where
  "SkipSpace [] = Waiting"
| "SkipSpace (c # cs) =
     (if c = newline then Failed (errors_New ''unexpected newline'')
      else if isSpace c then SkipSpace cs
      else Scanned () (c # cs))"

definition digit_val :: "char \<Rightarrow> nat" where
  "digit_val c = of_char c - 48"

definition ParseUint :: "string \<Rightarrow> nat" where
  "ParseUint tok = foldl (\<lambda>a c. 10 * a + digit_val c) 0 tok"

definition scanUint :: "nat \<Rightarrow> string \<Rightarrow> nat scan" where
  "scanUint bitSize s =
     (case SkipSpace s of
        Waiting \<Rightarrow> Waiting
      | Failed e \<Rightarrow> Failed e
      | Scanned _ s1 \<Rightarrow>
          (let tok = takeWhile isDigit s1; rest = dropWhile isDigit s1
           in if tok = [] then Failed (errors_New ''expected integer'')
              else if rest = [] then Waiting
              else if 2 ^ 64 \<le> ParseUint tok then Failed (NumError_Range tok)
              else if 2 ^ bitSize \<le> ParseUint tok
                then Failed (errors_New (''unsigned integer overflow on token '' @ tok))
              else Scanned (ParseUint tok) rest))"

fun skip_blanks :: "string \<Rightarrow> unit scan" where
  "skip_blanks [] = Waiting"
| "skip_blanks (c # cs) =
     (if isSpace c \<and> c \<noteq> newline then skip_blanks cs else Scanned () (c # cs))"

fun advance_space :: "string \<Rightarrow> unit scan" where
  "advance_space [] = Waiting"
| "advance_space (c # cs) =
     (if \<not> isSpace c then Failed (errors_New ''expected space in input to match format'')
      else if c = newline then Failed (errors_New ''newline in input does not match format'')
      else skip_blanks cs)"

text \<open>
  The verbs of the format, each with the width of the variable it stores into, in order;
  \<open>first\<close> says that no space of the format stands before the verb. The values stored
  before an error stay stored: the result lists them.
\<close>

fun doScanf :: "bool \<Rightarrow> nat list \<Rightarrow> string \<Rightarrow> nat list outcome" where
  "doScanf first [] s = Returns [] None"
| "doScanf first (bitSize # verbs) s =
     (case (if first then Scanned () s else advance_space s) of
        Waiting \<Rightarrow> Blocks
      | Failed e \<Rightarrow> Returns [] (Some e)
      | Scanned _ s1 \<Rightarrow>
          (case scanUint bitSize s1 of
             Waiting \<Rightarrow> Blocks
           | Failed e \<Rightarrow> Returns [] (Some e)
           | Scanned v s2 \<Rightarrow>
               (case doScanf False verbs s2 of
                  Blocks \<Rightarrow> Blocks
                | Returns vs err \<Rightarrow> Returns (v # vs) err)))"

definition Fscanf :: "nat list \<Rightarrow> string \<Rightarrow> nat list outcome" where
  "Fscanf verbs s = doScanf True verbs s"

text \<open>The variable a verb stored into, or its zero value when the scan never got there.\<close>

definition stored :: "nat list \<Rightarrow> nat \<Rightarrow> uint64" where
  "stored vs i = (if i < length vs then of_nat (vs ! i) else 0)"

text \<open>\<^verbatim>\<open>path.Join\<close> of three elements that are non-empty and already clean.\<close>

definition path_Join :: "string \<Rightarrow> string \<Rightarrow> string \<Rightarrow> string" where
  "path_Join a b c = a @ ''/'' @ b @ ''/'' @ c"

definition repquota_Cmd :: "LinuxQuotaManager \<Rightarrow> uint32 \<Rightarrow> Cmd" where
  "repquota_Cmd m uid =
     \<lparr>Path = path_Join (rootPath m) ''bin'' ''repquota'',
      Args = [mountPoint m, fmt_d (unat uid)]\<rparr>"

definition no_limits :: DiskLimits where
  "no_limits = \<lparr>BlockSoft = 0, BlockHard = 0, InodeSoft = 0, InodeHard = 0, ByteSoft = 0, ByteHard = 0\<rparr>"

text \<open>
  \<open>pipe\<close> is the error \<^verbatim>\<open>os.Pipe\<close> returned, if any. In \<^verbatim>\<open>GetLimits\<close> the
  variable \<^verbatim>\<open>skip\<close> is a \<^verbatim>\<open>uint32\<close> and takes fields 1, 2, 5 and 6; the limits are
  \<^verbatim>\<open>uint64\<close>.
\<close>

definition GetLimits :: "error option \<Rightarrow> LinuxQuotaManager \<Rightarrow> uint32 \<Rightarrow> DiskLimits outcome" where
  "GetLimits pipe m uid =
     (case pipe of
        Some err \<Rightarrow> Returns no_limits (Some err)
      | None \<Rightarrow>
          (case StartCmd (runner m) (repquota_Cmd m uid) of
             (out, Some err) \<Rightarrow> Returns no_limits (Some err)
           | (out, None) \<Rightarrow>
               (case Fscanf [32, 32, 64, 64, 32, 32, 64, 64] out of
                  Blocks \<Rightarrow> Blocks
                | Returns vs err \<Rightarrow>
                    Returns (no_limits\<lparr>BlockSoft := stored vs 2, BlockHard := stored vs 3,
                                       InodeSoft := stored vs 6, InodeHard := stored vs 7\<rparr>) err)))"

text \<open>In \<^verbatim>\<open>GetUsage\<close> \<^verbatim>\<open>skip\<close> takes fields 1, 3, 4, 5, 7 and 8.\<close>

definition GetUsage :: "error option \<Rightarrow> LinuxQuotaManager \<Rightarrow> uint32 \<Rightarrow> ContainerDiskStat outcome" where
  "GetUsage pipe m uid =
     (case pipe of
        Some err \<Rightarrow> Returns \<lparr>BytesUsed = 0, InodesUsed = 0\<rparr> (Some err)
      | None \<Rightarrow>
          (case StartCmd (runner m) (repquota_Cmd m uid) of
             (out, Some err) \<Rightarrow> Returns \<lparr>BytesUsed = 0, InodesUsed = 0\<rparr> (Some err)
           | (out, None) \<Rightarrow>
               (case Fscanf [32, 64, 32, 32, 32, 64, 32, 32] out of
                  Blocks \<Rightarrow> Blocks
                | Returns vs err \<Rightarrow>
                    Returns \<lparr>BytesUsed = stored vs 1, InodesUsed = stored vs 5\<rparr> err)))"

text \<open>
  A field of a \<^verbatim>\<open>repquota\<close> line: a non-empty run of decimal digits. The line of eight
  fields, single spaces between them and a newline at the end.
\<close>

type_synonym field = string

definition decimal_field :: "field \<Rightarrow> bool" where
  "decimal_field ds = (ds \<noteq> [] \<and> list_all isDigit ds)"

definition repquota_line ::
    "field \<Rightarrow> field \<Rightarrow> field \<Rightarrow> field \<Rightarrow> field \<Rightarrow> field \<Rightarrow> field \<Rightarrow> field \<Rightarrow> string" where
  "repquota_line f1 f2 f3 f4 f5 f6 f7 f8 =
     f1 @ CHR '' '' # f2 @ CHR '' '' # f3 @ CHR '' '' # f4 @ CHR '' '' # f5 @ CHR '' '' # f6 @ CHR '' '' #
     f7 @ CHR '' '' # f8 @ [newline]"

text \<open>A runner whose commands write a fixed output and succeed, for concrete runs.\<close>

definition fixed_runner :: "string \<Rightarrow> CommandRunner" where
  "fixed_runner out = \<lparr>RunCmd = (\<lambda>cmd. (out, None)), StartCmd = (\<lambda>cmd. (out, None))\<rparr>"

definition quota_manager_at :: "string \<Rightarrow> LinuxQuotaManager" where
  "quota_manager_at out = \<lparr>mountPoint = ''/var/containers'', rootPath = ''/root'', runner = fixed_runner out\<rparr>"

section \<open>Control protocol client (package connection)\<close>

subsection \<open>Types of packages warden and protocol\<close>

text \<open>
  Modelled from the spec: the declarations of package \<^verbatim>\<open>warden\<close> that the client reads
  or builds (\<^verbatim>\<open>ProcessSpec\<close>, \<^verbatim>\<open>EnvironmentVariable\<close>, \<^verbatim>\<open>ProcessStream\<close>)
  are not among the sources; the records hold the fields the client touches
  (\<^verbatim>\<open>ResourceLimits\<close> is as the sources declare it). A
  \<^verbatim>\<open>ProcessStream\<close> is tagged with a source and carries bytes, or carries an exit
  status. \<open>ProcessStreamSource_zero\<close> is the zero value of the source type, which the
  client leaves in an exit-status item; the sources do not show whether one of the three
  named constants equals it, and nothing below depends on that.
\<close>

datatype ProcessStreamSource =
    ProcessStreamSource_zero
  | ProcessStreamSourceStdin
  | ProcessStreamSourceStdout
  | ProcessStreamSourceStderr

record ProcessStream =
  Source :: ProcessStreamSource
  Data :: string
  ExitStatus :: "uint32 option"

record ResourceLimits =
  As :: "uint64 option"
  Core :: "uint64 option"
  Cpu :: "uint64 option"
  Data :: "uint64 option"
  Fsize :: "uint64 option"
  Locks :: "uint64 option"
  Memlock :: "uint64 option"
  Msgqueue :: "uint64 option"
  Nice :: "uint64 option"
  Nofile :: "uint64 option"
  Nproc :: "uint64 option"
  Rss :: "uint64 option"
  Rtprio :: "uint64 option"
  Sigpending :: "uint64 option"
  Stack :: "uint64 option"

record EnvironmentVariable =
  Key :: string
  Value :: string

record ProcessSpec =
  Script :: string
  Privileged :: bool
  Limits :: ResourceLimits
  EnvironmentVariables :: "EnvironmentVariable list"

text \<open>
  Modelled from the spec: the message types of package \<^verbatim>\<open>protocol\<close> (generated code,
  not among the sources). The codec supports fields that can be unset or present with a
  value: an optional field is an \<open>option\<close>, and a getter returns the value, or the zero
  value of its type when the field is unset (for the source of a payload, the first value
  of the enumeration).
\<close>

record protocol_ResourceLimits =
  As :: "uint64 option"
  Core :: "uint64 option"
  Cpu :: "uint64 option"
  Data :: "uint64 option"
  Fsize :: "uint64 option"
  Locks :: "uint64 option"
  Memlock :: "uint64 option"
  Msgqueue :: "uint64 option"
  Nice :: "uint64 option"
  Nofile :: "uint64 option"
  Nproc :: "uint64 option"
  Rss :: "uint64 option"
  Rtprio :: "uint64 option"
  Sigpending :: "uint64 option"
  Stack :: "uint64 option"

record protocol_EnvironmentVariable =
  Key :: "string option"
  Value :: "string option"

record RunRequest =
  Handle :: "string option"
  Script :: "string option"
  Privileged :: "bool option"
  Rlimits :: "protocol_ResourceLimits option"
  Env :: "protocol_EnvironmentVariable list"

record AttachRequest =
  Handle :: "string option"
  ProcessId :: "uint32 option"

datatype ProcessPayload_Source = ProcessPayload_stdin | ProcessPayload_stdout | ProcessPayload_stderr

record ProcessPayload =
  ProcessId :: "uint32 option"
  Source :: "ProcessPayload_Source option"
  Data :: "string option"
  ExitStatus :: "uint32 option"

record LimitBandwidthRequest =
  Handle :: "string option"
  Rate :: "uint64 option"
  Burst :: "uint64 option"

record LimitBandwidthResponse =
  Rate :: "uint64 option"
  Burst :: "uint64 option"

record LimitCpuRequest =
  Handle :: "string option"
  LimitInShares :: "uint64 option"

record LimitCpuResponse =
  LimitInShares :: "uint64 option"

record LimitDiskRequest =
  Handle :: "string option"
  BlockSoft :: "uint64 option"
  BlockHard :: "uint64 option"
  InodeSoft :: "uint64 option"
  InodeHard :: "uint64 option"
  ByteSoft :: "uint64 option"
  ByteHard :: "uint64 option"

record LimitDiskResponse =
  BlockSoft :: "uint64 option"
  BlockHard :: "uint64 option"
  InodeSoft :: "uint64 option"
  InodeHard :: "uint64 option"
  ByteSoft :: "uint64 option"
  ByteHard :: "uint64 option"

record LimitMemoryRequest =
  Handle :: "string option"
  LimitInBytes :: "uint64 option"

record LimitMemoryResponse =
  LimitInBytes :: "uint64 option"

definition GetUint :: "'a::len word option \<Rightarrow> 'a word" where
  "GetUint field = (case field of None \<Rightarrow> 0 | Some v \<Rightarrow> v)"

definition GetData :: "ProcessPayload \<Rightarrow> string" where
  "GetData payload = (case ProcessPayload.Data payload of None \<Rightarrow> [] | Some d \<Rightarrow> d)"

definition GetSource :: "ProcessPayload \<Rightarrow> ProcessPayload_Source" where
  "GetSource payload =
     (case ProcessPayload.Source payload of None \<Rightarrow> ProcessPayload_stdin | Some src \<Rightarrow> src)"

subsection \<open>The HTTP clients and the wire\<close>

text \<open>
  \<^verbatim>\<open>connection.New\<close> builds two \<^verbatim>\<open>http.Client\<close>s over the same dialer; the second
  one's transport has \<^verbatim>\<open>DisableKeepAlives: true\<close>.
\<close>

record http_Transport =
  Dial :: "string \<times> string"
  DisableKeepAlives :: bool

record http_Client =
  Transport :: http_Transport

record connection =
  httpClient :: http_Client
  noKeepaliveClient :: http_Client

definition connection_New :: "string \<Rightarrow> string \<Rightarrow> connection" where
  "connection_New network address =
     \<lparr>httpClient = \<lparr>Transport = \<lparr>Dial = (network, address), DisableKeepAlives = False\<rparr>\<rparr>,
      noKeepaliveClient = \<lparr>Transport = \<lparr>Dial = (network, address), DisableKeepAlives = True\<rparr>\<rparr>\<rparr>"

text \<open>
  A call of \<^verbatim>\<open>client.Post(url, bodyType, body)\<close>: \<open>via\<close> is the client it is made
  on. The URL is kept in parts; \<open>RawQuery\<close> holds the pairs that
  \<^verbatim>\<open>url.Values.Encode\<close> writes, in its order (sorted by key). What the network and the
  server answer, and what the codec of package \<^verbatim>\<open>transport\<close> does, is the
  environment \<open>wire\<close>: \<open>'q\<close> is the type of the request message, \<open>'w\<close> of its
  encoded bytes, \<open>'b\<close> of a response body being read and \<open>'m\<close> of the message read
  from it. \<open>ReadMessage\<close> returns, with its result, the body as it is left for the next
  read.
\<close>

record URL =
  Scheme :: string
  Host :: string
  Path :: string
  RawQuery :: "(string \<times> string) list"

record 'w http_call =
  via :: http_Client
  url :: URL
  bodyType :: string
  body :: "'w option"

record 'b http_Response =
  StatusCode :: int
  Status :: string
  Body :: 'b

record ('q, 'w, 'b, 'm) wire =
  WriteMessage :: "'q \<Rightarrow> error + 'w"
  Post :: "'w http_call \<Rightarrow> error + 'b http_Response"
  ReadMessage :: "'b \<Rightarrow> (error + 'm) \<times> 'b"

definition warden_url :: "string \<Rightarrow> URL" where
  "warden_url route = \<lparr>Scheme = ''http'', Host = ''warden'', Path = route, RawQuery = []\<rparr>"

definition http_StatusOK :: int where
  "http_StatusOK = 200"

text \<open>
  \<^verbatim>\<open>post\<close>: encode, post on \<^verbatim>\<open>c.httpClient\<close>, check the status, decode into
  \<^verbatim>\<open>res\<close>. The result is the error, or \<^verbatim>\<open>res\<close> as filled in. Closing a response
  body changes none of the values below and is left out of the four helpers; in
  \<^verbatim>\<open>streamPayloads\<close> it is the last operation of the task and is recorded.
\<close>

definition post :: "('q, 'w, 'b, 'm) wire \<Rightarrow> connection \<Rightarrow> string \<Rightarrow> 'q \<Rightarrow> error + 'm" where
  "post env c route req =
     (case WriteMessage env req of
        Inl err \<Rightarrow> Inl err
      | Inr reqBody \<Rightarrow>
          (case Post env \<lparr>via = httpClient c, url = warden_url route,
                          bodyType = ''application/octet-stream'', body = Some reqBody\<rparr> of
             Inl err \<Rightarrow> Inl err
           | Inr httpResp \<Rightarrow>
               if StatusCode httpResp < 200 \<or> StatusCode httpResp > 299
               then Inl (errors_New (Status httpResp))
               else fst (ReadMessage env (Body httpResp))))"

definition postWithStreamedResponse :: "('q, 'w, 'b, 'm) wire \<Rightarrow> connection \<Rightarrow> URL \<Rightarrow> error + 'b" where
  "postWithStreamedResponse env c u =
     (case Post env \<lparr>via = noKeepaliveClient c, url = u,
                     bodyType = ''application/octet-stream'', body = None\<rparr> of
        Inl err \<Rightarrow> Inl err
      | Inr httpResp \<Rightarrow>
          if StatusCode httpResp \<noteq> http_StatusOK
          then Inl (errors_New (Status httpResp))
          else Inr (Body httpResp))"

definition postWithStreamedRequest :: "('q, 'w, 'b, 'm) wire \<Rightarrow> connection \<Rightarrow> URL \<Rightarrow> 'w \<Rightarrow> error option" where
  "postWithStreamedRequest env c u reader =
     (case Post env \<lparr>via = noKeepaliveClient c, url = u,
                     bodyType = ''application/octet-stream'', body = Some reader\<rparr> of
        Inl err \<Rightarrow> Some err
      | Inr resp \<Rightarrow>
          if StatusCode resp \<noteq> http_StatusOK
          then Some (errors_New (Status resp))
          else None)"

definition postWithProcessPayloadResponse ::
    "('q, 'w, 'b, 'm) wire \<Rightarrow> connection \<Rightarrow> string \<Rightarrow> 'q \<Rightarrow> error + 'b" where
  "postWithProcessPayloadResponse env c route req =
     (case WriteMessage env req of
        Inl err \<Rightarrow> Inl err
      | Inr reqBody \<Rightarrow>
          (case Post env \<lparr>via = httpClient c, url = warden_url route,
                          bodyType = ''application/octet-stream'', body = Some reqBody\<rparr> of
             Inl err \<Rightarrow> Inl err
           | Inr httpResp \<Rightarrow>
               if StatusCode httpResp \<noteq> http_StatusOK
               then Inl (errors_New (Status httpResp))
               else Inr (Body httpResp)))"

subsection \<open>Run, Attach and the demultiplexer\<close>

text \<open>
  \<^verbatim>\<open>streamPayloads\<close> runs as a task of its own and is the only writer of the channel.
  What it does is the sequence of its operations on the channel and the body: a send, the
  close of the channel, the close of the body. The channel is unbuffered, so a send
  completes when the consumer receives the item; the sequence is the one a consumer that
  keeps receiving observes. The loop has no bound of its own: \<open>n\<close> bounds the
  iterations followed, and the flag says whether the task has finished within them.
\<close>

datatype chan_event = Send ProcessStream | CloseChan | CloseReader

fun streamPayloads ::
    "nat \<Rightarrow> ('q, 'w, 'b, ProcessPayload) wire \<Rightarrow> 'b \<Rightarrow> chan_event list \<times> bool" where
  "streamPayloads 0 env reader = ([], False)"
| "streamPayloads (Suc n) env reader =
     (case ReadMessage env reader of
        (Inl err, reader') \<Rightarrow> ([CloseChan, CloseReader], True)
      | (Inr payload, reader') \<Rightarrow>
          (case ProcessPayload.ExitStatus payload of
             Some status \<Rightarrow>
               ([Send \<lparr>ProcessStream.Source = ProcessStreamSource_zero, ProcessStream.Data = [],
                        ProcessStream.ExitStatus = ProcessPayload.ExitStatus payload\<rparr>,
                 CloseChan, CloseReader], True)
           | None \<Rightarrow>
               (let source = (case GetSource payload of
                                ProcessPayload_stdin \<Rightarrow> ProcessStreamSourceStdin
                              | ProcessPayload_stdout \<Rightarrow> ProcessStreamSourceStdout
                              | ProcessPayload_stderr \<Rightarrow> ProcessStreamSourceStderr);
                    item = \<lparr>ProcessStream.Source = source, ProcessStream.Data = GetData payload,
                            ProcessStream.ExitStatus = None\<rparr>;
                    (events, finished) = streamPayloads n env reader'
                in (Send item # events, finished))))"

definition convertEnvironmentVariables ::
    "EnvironmentVariable list \<Rightarrow> protocol_EnvironmentVariable list" where
  "convertEnvironmentVariables environmentVariables =
     map (\<lambda>env. \<lparr>protocol_EnvironmentVariable.Key = Some (EnvironmentVariable.Key env),
                  protocol_EnvironmentVariable.Value = Some (EnvironmentVariable.Value env)\<rparr>)
         environmentVariables"

definition RunRequest_of :: "string \<Rightarrow> ProcessSpec \<Rightarrow> RunRequest" where
  "RunRequest_of handle spec =
     \<lparr>RunRequest.Handle = Some handle,
      RunRequest.Script = Some (ProcessSpec.Script spec),
      RunRequest.Privileged = Some (ProcessSpec.Privileged spec),
      Rlimits = Some \<lparr>protocol_ResourceLimits.As = ResourceLimits.As (Limits spec),
                      protocol_ResourceLimits.Core = ResourceLimits.Core (Limits spec),
                      protocol_ResourceLimits.Cpu = ResourceLimits.Cpu (Limits spec),
                      protocol_ResourceLimits.Data = ResourceLimits.Data (Limits spec),
                      protocol_ResourceLimits.Fsize = ResourceLimits.Fsize (Limits spec),
                      protocol_ResourceLimits.Locks = ResourceLimits.Locks (Limits spec),
                      protocol_ResourceLimits.Memlock = ResourceLimits.Memlock (Limits spec),
                      protocol_ResourceLimits.Msgqueue = ResourceLimits.Msgqueue (Limits spec),
                      protocol_ResourceLimits.Nice = ResourceLimits.Nice (Limits spec),
                      protocol_ResourceLimits.Nofile = ResourceLimits.Nofile (Limits spec),
                      protocol_ResourceLimits.Nproc = ResourceLimits.Nproc (Limits spec),
                      protocol_ResourceLimits.Rss = ResourceLimits.Rss (Limits spec),
                      protocol_ResourceLimits.Rtprio = ResourceLimits.Rtprio (Limits spec),
                      protocol_ResourceLimits.Sigpending = ResourceLimits.Sigpending (Limits spec),
                      protocol_ResourceLimits.Stack = ResourceLimits.Stack (Limits spec)\<rparr>,
      Env = convertEnvironmentVariables (EnvironmentVariables spec)\<rparr>"

text \<open>
  \<^verbatim>\<open>Run\<close> returns the process ID of the first message and the channel; the third part
  of the result is what the task started with \<^verbatim>\<open>go c.streamPayloads(respBody, responses)\<close>
  does to that channel. \<^verbatim>\<open>Attach\<close> starts the task on the body as it was returned.
\<close>

definition Run ::
    "nat \<Rightarrow> (RunRequest, 'w, 'b, ProcessPayload) wire \<Rightarrow> connection \<Rightarrow> string \<Rightarrow> ProcessSpec
       \<Rightarrow> error + uint32 \<times> chan_event list \<times> bool" where
  "Run n env c handle spec =
     (case postWithProcessPayloadResponse env c ''/run'' (RunRequest_of handle spec) of
        Inl err \<Rightarrow> Inl err
      | Inr respBody \<Rightarrow>
          (case ReadMessage env respBody of
             (Inl err, respBody') \<Rightarrow> Inl err
           | (Inr firstResponse, respBody') \<Rightarrow>
               Inr (GetUint (ProcessPayload.ProcessId firstResponse),
                    streamPayloads n env respBody')))"

definition Attach ::
    "nat \<Rightarrow> (AttachRequest, 'w, 'b, ProcessPayload) wire \<Rightarrow> connection \<Rightarrow> string \<Rightarrow> uint32
       \<Rightarrow> error + chan_event list \<times> bool" where
  "Attach n env c handle processID =
     (case postWithProcessPayloadResponse env c ''/attach''
             \<lparr>AttachRequest.Handle = Some handle, AttachRequest.ProcessId = Some processID\<rparr> of
        Inl err \<Rightarrow> Inl err
      | Inr respBody \<Rightarrow> Inr (streamPayloads n env respBody))"

subsection \<open>StreamIn and StreamOut\<close>

definition StreamIn :: "('q, 'w, 'b, 'm) wire \<Rightarrow> connection \<Rightarrow> string \<Rightarrow> string \<Rightarrow> 'w \<Rightarrow> error option" where
  "StreamIn env c handle dstPath reader =
     postWithStreamedRequest env c
       \<lparr>Scheme = ''http'', Host = ''warden'', Path = ''/stream_in'',
        RawQuery = [(''destination'', dstPath), (''handle'', handle)]\<rparr>
       reader"

definition StreamOut :: "('q, 'w, 'b, 'm) wire \<Rightarrow> connection \<Rightarrow> string \<Rightarrow> string \<Rightarrow> error + 'b" where
  "StreamOut env c handle srcPath =
     postWithStreamedResponse env c
       \<lparr>Scheme = ''http'', Host = ''warden'', Path = ''/stream_out'',
        RawQuery = [(''handle'', handle), (''source'', srcPath)]\<rparr>"

subsection \<open>The four limit kinds\<close>

definition LimitBandwidth ::
    "(LimitBandwidthRequest, 'w, 'b, LimitBandwidthResponse) wire \<Rightarrow> connection \<Rightarrow> string
       \<Rightarrow> BandwidthLimits \<Rightarrow> error + BandwidthLimits" where
  "LimitBandwidth env c handle limits =
     (case post env c ''/limit_bandwidth''
             \<lparr>LimitBandwidthRequest.Handle = Some handle,
              LimitBandwidthRequest.Rate = Some (RateInBytesPerSecond limits),
              LimitBandwidthRequest.Burst = Some (BurstRateInBytesPerSecond limits)\<rparr> of
        Inl err \<Rightarrow> Inl err
      | Inr res \<Rightarrow>
          Inr \<lparr>RateInBytesPerSecond = GetUint (LimitBandwidthResponse.Rate res),
               BurstRateInBytesPerSecond = GetUint (LimitBandwidthResponse.Burst res)\<rparr>)"

definition CurrentBandwidthLimits ::
    "(LimitBandwidthRequest, 'w, 'b, LimitBandwidthResponse) wire \<Rightarrow> connection \<Rightarrow> string
       \<Rightarrow> error + BandwidthLimits" where
  "CurrentBandwidthLimits env c handle =
     (case post env c ''/limit_bandwidth''
             \<lparr>LimitBandwidthRequest.Handle = Some handle,
              LimitBandwidthRequest.Rate = None,
              LimitBandwidthRequest.Burst = None\<rparr> of
        Inl err \<Rightarrow> Inl err
      | Inr res \<Rightarrow>
          Inr \<lparr>RateInBytesPerSecond = GetUint (LimitBandwidthResponse.Rate res),
               BurstRateInBytesPerSecond = GetUint (LimitBandwidthResponse.Burst res)\<rparr>)"

definition LimitCPU ::
    "(LimitCpuRequest, 'w, 'b, LimitCpuResponse) wire \<Rightarrow> connection \<Rightarrow> string
       \<Rightarrow> CPULimits \<Rightarrow> error + CPULimits" where
  "LimitCPU env c handle limits =
     (case post env c ''/limit_cpu''
             \<lparr>LimitCpuRequest.Handle = Some handle,
              LimitCpuRequest.LimitInShares = Some (CPULimits.LimitInShares limits)\<rparr> of
        Inl err \<Rightarrow> Inl err
      | Inr res \<Rightarrow>
          Inr \<lparr>CPULimits.LimitInShares = GetUint (LimitCpuResponse.LimitInShares res)\<rparr>)"

definition CurrentCPULimits ::
    "(LimitCpuRequest, 'w, 'b, LimitCpuResponse) wire \<Rightarrow> connection \<Rightarrow> string
       \<Rightarrow> error + CPULimits" where
  "CurrentCPULimits env c handle =
     (case post env c ''/limit_cpu''
             \<lparr>LimitCpuRequest.Handle = Some handle,
              LimitCpuRequest.LimitInShares = None\<rparr> of
        Inl err \<Rightarrow> Inl err
      | Inr res \<Rightarrow>
          Inr \<lparr>CPULimits.LimitInShares = GetUint (LimitCpuResponse.LimitInShares res)\<rparr>)"

definition LimitDisk ::
    "(LimitDiskRequest, 'w, 'b, LimitDiskResponse) wire \<Rightarrow> connection \<Rightarrow> string
       \<Rightarrow> DiskLimits \<Rightarrow> error + DiskLimits" where
  "LimitDisk env c handle limits =
     (case post env c ''/limit_disk''
             \<lparr>LimitDiskRequest.Handle = Some handle,
              LimitDiskRequest.BlockSoft = Some (DiskLimits.BlockSoft limits),
              LimitDiskRequest.BlockHard = Some (DiskLimits.BlockHard limits),
              LimitDiskRequest.InodeSoft = Some (DiskLimits.InodeSoft limits),
              LimitDiskRequest.InodeHard = Some (DiskLimits.InodeHard limits),
              LimitDiskRequest.ByteSoft = Some (DiskLimits.ByteSoft limits),
              LimitDiskRequest.ByteHard = Some (DiskLimits.ByteHard limits)\<rparr> of
        Inl err \<Rightarrow> Inl err
      | Inr res \<Rightarrow>
          Inr \<lparr>DiskLimits.BlockSoft = GetUint (LimitDiskResponse.BlockSoft res),
               DiskLimits.BlockHard = GetUint (LimitDiskResponse.BlockHard res),
               DiskLimits.InodeSoft = GetUint (LimitDiskResponse.InodeSoft res),
               DiskLimits.InodeHard = GetUint (LimitDiskResponse.InodeHard res),
               DiskLimits.ByteSoft = GetUint (LimitDiskResponse.ByteSoft res),
               DiskLimits.ByteHard = GetUint (LimitDiskResponse.ByteHard res)\<rparr>)"

definition CurrentDiskLimits ::
    "(LimitDiskRequest, 'w, 'b, LimitDiskResponse) wire \<Rightarrow> connection \<Rightarrow> string
       \<Rightarrow> error + DiskLimits" where
  "CurrentDiskLimits env c handle =
     (case post env c ''/limit_disk''
             \<lparr>LimitDiskRequest.Handle = Some handle,
              LimitDiskRequest.BlockSoft = None,
              LimitDiskRequest.BlockHard = None,
              LimitDiskRequest.InodeSoft = None,
              LimitDiskRequest.InodeHard = None,
              LimitDiskRequest.ByteSoft = None,
              LimitDiskRequest.ByteHard = None\<rparr> of
        Inl err \<Rightarrow> Inl err
      | Inr res \<Rightarrow>
          Inr \<lparr>DiskLimits.BlockSoft = GetUint (LimitDiskResponse.BlockSoft res),
               DiskLimits.BlockHard = GetUint (LimitDiskResponse.BlockHard res),
               DiskLimits.InodeSoft = GetUint (LimitDiskResponse.InodeSoft res),
               DiskLimits.InodeHard = GetUint (LimitDiskResponse.InodeHard res),
               DiskLimits.ByteSoft = GetUint (LimitDiskResponse.ByteSoft res),
               DiskLimits.ByteHard = GetUint (LimitDiskResponse.ByteHard res)\<rparr>)"

definition LimitMemory ::
    "(LimitMemoryRequest, 'w, 'b, LimitMemoryResponse) wire \<Rightarrow> connection \<Rightarrow> string
       \<Rightarrow> MemoryLimits \<Rightarrow> error + MemoryLimits" where
  "LimitMemory env c handle limits =
     (case post env c ''/limit_memory''
             \<lparr>LimitMemoryRequest.Handle = Some handle,
              LimitMemoryRequest.LimitInBytes = Some (MemoryLimits.LimitInBytes limits)\<rparr> of
        Inl err \<Rightarrow> Inl err
      | Inr res \<Rightarrow>
          Inr \<lparr>MemoryLimits.LimitInBytes = GetUint (LimitMemoryResponse.LimitInBytes res)\<rparr>)"

definition CurrentMemoryLimits ::
    "(LimitMemoryRequest, 'w, 'b, LimitMemoryResponse) wire \<Rightarrow> connection \<Rightarrow> string
       \<Rightarrow> error + MemoryLimits" where
  "CurrentMemoryLimits env c handle =
     (case post env c ''/limit_memory''
             \<lparr>LimitMemoryRequest.Handle = Some handle,
              LimitMemoryRequest.LimitInBytes = None\<rparr> of
        Inl err \<Rightarrow> Inl err
      | Inr res \<Rightarrow>
          Inr \<lparr>MemoryLimits.LimitInBytes = GetUint (LimitMemoryResponse.LimitInBytes res)\<rparr>)"

subsection \<open>Shapes of requests and responses, for the statements\<close>

text \<open>
  The request \<^verbatim>\<open>LimitDisk\<close> would send for given limits if it copied them field by
  field; the value a response of each limit kind stands for; and the passage of an error
  or a decoded response to the caller.
\<close>

definition LimitDiskRequest_of :: "string \<Rightarrow> DiskLimits \<Rightarrow> LimitDiskRequest" where
  "LimitDiskRequest_of handle limits =
     \<lparr>LimitDiskRequest.Handle = Some handle,
      LimitDiskRequest.BlockSoft = Some (DiskLimits.BlockSoft limits),
      LimitDiskRequest.BlockHard = Some (DiskLimits.BlockHard limits),
      LimitDiskRequest.InodeSoft = Some (DiskLimits.InodeSoft limits),
      LimitDiskRequest.InodeHard = Some (DiskLimits.InodeHard limits),
      LimitDiskRequest.ByteSoft = Some (DiskLimits.ByteSoft limits),
      LimitDiskRequest.ByteHard = Some (DiskLimits.ByteHard limits)\<rparr>"

definition BandwidthLimits_of :: "LimitBandwidthResponse \<Rightarrow> BandwidthLimits" where
  "BandwidthLimits_of res =
     \<lparr>RateInBytesPerSecond = GetUint (LimitBandwidthResponse.Rate res),
      BurstRateInBytesPerSecond = GetUint (LimitBandwidthResponse.Burst res)\<rparr>"

definition CPULimits_of :: "LimitCpuResponse \<Rightarrow> CPULimits" where
  "CPULimits_of res = \<lparr>CPULimits.LimitInShares = GetUint (LimitCpuResponse.LimitInShares res)\<rparr>"

definition DiskLimits_of :: "LimitDiskResponse \<Rightarrow> DiskLimits" where
  "DiskLimits_of res =
     \<lparr>DiskLimits.BlockSoft = GetUint (LimitDiskResponse.BlockSoft res),
      DiskLimits.BlockHard = GetUint (LimitDiskResponse.BlockHard res),
      DiskLimits.InodeSoft = GetUint (LimitDiskResponse.InodeSoft res),
      DiskLimits.InodeHard = GetUint (LimitDiskResponse.InodeHard res),
      DiskLimits.ByteSoft = GetUint (LimitDiskResponse.ByteSoft res),
      DiskLimits.ByteHard = GetUint (LimitDiskResponse.ByteHard res)\<rparr>"

definition MemoryLimits_of :: "LimitMemoryResponse \<Rightarrow> MemoryLimits" where
  "MemoryLimits_of res = \<lparr>MemoryLimits.LimitInBytes = GetUint (LimitMemoryResponse.LimitInBytes res)\<rparr>"

definition decoded :: "('m \<Rightarrow> 'l) \<Rightarrow> error + 'm \<Rightarrow> error + 'l" where
  "decoded f r = (case r of Inl err \<Rightarrow> Inl err | Inr res \<Rightarrow> Inr (f res))"

text \<open>
  The way from the HTTP response to the caller's result, in terms of the environment: a
  status outside 200..299 is an error carrying the status text; otherwise one message is
  read from the body and the result is built from it with \<open>f\<close>.
\<close>

definition response_path ::
    "('m \<Rightarrow> 'l) \<Rightarrow> ('q, 'w, 'b, 'm) wire \<Rightarrow> 'b http_Response \<Rightarrow> error + 'l" where
  "response_path f env resp =
     (if 200 \<le> StatusCode resp \<and> StatusCode resp \<le> 299
      then decoded f (fst (ReadMessage env (Body resp)))
      else Inl (errors_New (Status resp)))"

text \<open>The body as the first \<open>k\<close> reads leave it, and the item a data payload is sent as.\<close>

fun reader_after :: "nat \<Rightarrow> ('q, 'w, 'b, 'm) wire \<Rightarrow> 'b \<Rightarrow> 'b" where
  "reader_after 0 env reader = reader"
| "reader_after (Suc k) env reader = reader_after k env (snd (ReadMessage env reader))"

text \<open>A read that ends the loop of \<^verbatim>\<open>streamPayloads\<close>: an error, or an exit status.\<close>

definition terminal_read :: "error + ProcessPayload \<Rightarrow> bool" where
  "terminal_read r = (case r of Inl err \<Rightarrow> True | Inr payload \<Rightarrow> ProcessPayload.ExitStatus payload \<noteq> None)"

definition data_item :: "ProcessPayload \<Rightarrow> ProcessStream" where
  "data_item payload =
     \<lparr>ProcessStream.Source = (case GetSource payload of
                                ProcessPayload_stdin \<Rightarrow> ProcessStreamSourceStdin
                              | ProcessPayload_stdout \<Rightarrow> ProcessStreamSourceStdout
                              | ProcessPayload_stderr \<Rightarrow> ProcessStreamSourceStderr),
      ProcessStream.Data = GetData payload,
      ProcessStream.ExitStatus = None\<rparr>"

subsection \<open>Concrete environments, for runs of the client\<close>

text \<open>
  A body that is the list of the messages still to be read; a read past its end fails
  (end of file). \<open>answering\<close> is a server that gives one fixed response to every
  request; \<open>keepalive_only\<close> gives it only to requests made on a client whose transport
  keeps connections alive and refuses the others; \<open>echo_disk\<close> answers a disk-limit
  request with the fields it received.
\<close>

definition read_list :: "'m list \<Rightarrow> (error + 'm) \<times> 'm list" where
  "read_list ms = (case ms of [] \<Rightarrow> (Inl (Opaque ''EOF''), []) | m # rest \<Rightarrow> (Inr m, rest))"

definition answering :: "'m list http_Response \<Rightarrow> ('q, 'q, 'm list, 'm) wire" where
  "answering resp = \<lparr>WriteMessage = Inr, Post = (\<lambda>call. Inr resp), ReadMessage = read_list\<rparr>"

definition keepalive_only :: "'m list http_Response \<Rightarrow> ('q, 'q, 'm list, 'm) wire" where
  "keepalive_only resp =
     \<lparr>WriteMessage = Inr,
      Post = (\<lambda>call. if DisableKeepAlives (Transport (via call))
                      then Inl (Opaque ''request made with keep-alive disabled'')
                      else Inr resp),
      ReadMessage = read_list\<rparr>"

definition echo_disk :: "(LimitDiskRequest, LimitDiskRequest, LimitDiskRequest option, LimitDiskResponse) wire" where
  "echo_disk =
     \<lparr>WriteMessage = Inr,
      Post = (\<lambda>call. Inr \<lparr>StatusCode = 200, Status = ''200 OK'', Body = body call\<rparr>),
      ReadMessage = (\<lambda>b. (case b of
                             None \<Rightarrow> Inl (Opaque ''EOF'')
                           | Some req \<Rightarrow>
                               Inr \<lparr>LimitDiskResponse.BlockSoft = LimitDiskRequest.BlockSoft req,
                                    LimitDiskResponse.BlockHard = LimitDiskRequest.BlockHard req,
                                    LimitDiskResponse.InodeSoft = LimitDiskRequest.InodeSoft req,
                                    LimitDiskResponse.InodeHard = LimitDiskRequest.InodeHard req,
                                    LimitDiskResponse.ByteSoft = LimitDiskRequest.ByteSoft req,
                                    LimitDiskResponse.ByteHard = LimitDiskRequest.ByteHard req\<rparr>,
                           None))\<rparr>"

text \<open>
  \<open>loopback route answer\<close> is a server that knows one route: a request posted there
  is answered with status 200 and the message \<open>answer req\<close>, where \<open>req\<close> is the
  request message as it arrived; any other request gets status 404. The four
  \<open>presence\<close> answers report, for every value field of a limit request, 1 if the field
  is populated and 0 if it is not, whatever its value. \<open>client_probe\<close> is a network on
  which every request fails, with an error that tells on which kind of client it was
  made.
\<close>

definition loopback :: "string \<Rightarrow> ('q \<Rightarrow> 'm) \<Rightarrow> ('q, 'q, 'q option, 'm) wire" where
  "loopback route answer =
     \<lparr>WriteMessage = Inr,
      Post = (\<lambda>call. if url call = warden_url route
                      then Inr \<lparr>StatusCode = 200, Status = ''200 OK'', Body = body call\<rparr>
                      else Inr \<lparr>StatusCode = 404, Status = ''404 Not Found'', Body = None\<rparr>),
      ReadMessage = (\<lambda>b. (case b of
                             None \<Rightarrow> Inl (Opaque ''EOF'')
                           | Some req \<Rightarrow> Inr (answer req),
                           None))\<rparr>"

definition present :: "'a option \<Rightarrow> uint64 option" where
  "present field = (case field of None \<Rightarrow> Some 0 | Some v \<Rightarrow> Some 1)"

definition bandwidth_presence :: "LimitBandwidthRequest \<Rightarrow> LimitBandwidthResponse" where
  "bandwidth_presence req =
     \<lparr>LimitBandwidthResponse.Rate = present (LimitBandwidthRequest.Rate req),
      LimitBandwidthResponse.Burst = present (LimitBandwidthRequest.Burst req)\<rparr>"

definition cpu_presence :: "LimitCpuRequest \<Rightarrow> LimitCpuResponse" where
  "cpu_presence req =
     \<lparr>LimitCpuResponse.LimitInShares = present (LimitCpuRequest.LimitInShares req)\<rparr>"

definition disk_presence :: "LimitDiskRequest \<Rightarrow> LimitDiskResponse" where
  "disk_presence req =
     \<lparr>LimitDiskResponse.BlockSoft = present (LimitDiskRequest.BlockSoft req),
      LimitDiskResponse.BlockHard = present (LimitDiskRequest.BlockHard req),
      LimitDiskResponse.InodeSoft = present (LimitDiskRequest.InodeSoft req),
      LimitDiskResponse.InodeHard = present (LimitDiskRequest.InodeHard req),
      LimitDiskResponse.ByteSoft = present (LimitDiskRequest.ByteSoft req),
      LimitDiskResponse.ByteHard = present (LimitDiskRequest.ByteHard req)\<rparr>"

definition memory_presence :: "LimitMemoryRequest \<Rightarrow> LimitMemoryResponse" where
  "memory_presence req =
     \<lparr>LimitMemoryResponse.LimitInBytes = present (LimitMemoryRequest.LimitInBytes req)\<rparr>"

definition all_present :: DiskLimits where
  "all_present = \<lparr>DiskLimits.BlockSoft = 1, DiskLimits.BlockHard = 1, DiskLimits.InodeSoft = 1,
                   DiskLimits.InodeHard = 1, DiskLimits.ByteSoft = 1, DiskLimits.ByteHard = 1\<rparr>"

definition client_probe :: "('q, 'q, 'b, 'm) wire" where
  "client_probe =
     \<lparr>WriteMessage = Inr,
      Post = (\<lambda>call. Inl (Opaque (if DisableKeepAlives (Transport (via call))
                                     then ''keep-alive disabled''
                                     else ''keep-alive enabled''))),
      ReadMessage = (\<lambda>b. (Inl (Opaque ''EOF''), b))\<rparr>"

definition ok_response :: "'b \<Rightarrow> 'b http_Response" where
  "ok_response b = \<lparr>StatusCode = 200, Status = ''200 OK'', Body = b\<rparr>"

definition payload_wire :: "(unit, unit, ProcessPayload list, ProcessPayload) wire" where
  "payload_wire = answering (ok_response [])"

definition warden_conn :: connection where
  "warden_conn = connection_New ''unix'' ''/tmp/warden.sock''"

definition stdout_payload :: "string \<Rightarrow> ProcessPayload" where
  "stdout_payload d =
     \<lparr>ProcessPayload.ProcessId = Some 7, ProcessPayload.Source = Some ProcessPayload_stdout,
      ProcessPayload.Data = Some d, ProcessPayload.ExitStatus = None\<rparr>"

definition exit_payload :: "uint32 \<Rightarrow> ProcessPayload" where
  "exit_payload st =
     \<lparr>ProcessPayload.ProcessId = Some 7, ProcessPayload.Source = None,
      ProcessPayload.Data = None, ProcessPayload.ExitStatus = Some st\<rparr>"

definition first_payload :: ProcessPayload where
  "first_payload =
     \<lparr>ProcessPayload.ProcessId = Some 7, ProcessPayload.Source = None,
      ProcessPayload.Data = None, ProcessPayload.ExitStatus = None\<rparr>"

definition hello_goodbye_42 :: "ProcessPayload list" where
  "hello_goodbye_42 =
     [stdout_payload (''hello'' @ [newline]), stdout_payload (''goodbye'' @ [newline]), exit_payload 42]"

definition payload_attach_wire :: "(AttachRequest, AttachRequest, ProcessPayload list, ProcessPayload) wire" where
  "payload_attach_wire = answering (ok_response hello_goodbye_42)"

definition memory_wire ::
    "(LimitMemoryRequest, LimitMemoryRequest, LimitMemoryResponse list, LimitMemoryResponse) wire" where
  "memory_wire = answering (ok_response [\<lparr>LimitMemoryResponse.LimitInBytes = Some 4096\<rparr>])"

definition disk_wire ::
    "(LimitDiskRequest, LimitDiskRequest, LimitDiskResponse list, LimitDiskResponse) wire" where
  "disk_wire =
     answering (ok_response
       [\<lparr>LimitDiskResponse.BlockSoft = Some 10, LimitDiskResponse.BlockHard = Some 20,
         LimitDiskResponse.InodeSoft = Some 30, LimitDiskResponse.InodeHard = Some 40,
         LimitDiskResponse.ByteSoft = None, LimitDiskResponse.ByteHard = None\<rparr>])"

definition no_rlimits :: ResourceLimits where
  "no_rlimits = \<lparr>ResourceLimits.As = None, ResourceLimits.Core = None, ResourceLimits.Cpu = None, ResourceLimits.Data = None, ResourceLimits.Fsize = None, ResourceLimits.Locks = None, ResourceLimits.Memlock = None, ResourceLimits.Msgqueue = None, ResourceLimits.Nice = None, ResourceLimits.Nofile = None, ResourceLimits.Nproc = None, ResourceLimits.Rss = None, ResourceLimits.Rtprio = None, ResourceLimits.Sigpending = None, ResourceLimits.Stack = None\<rparr>"

definition echo_spec :: ProcessSpec where
  "echo_spec = \<lparr>ProcessSpec.Script = ''echo hello; echo goodbye; exit 42'', ProcessSpec.Privileged = False,
                 Limits = no_rlimits, EnvironmentVariables = []\<rparr>"

text \<open>The head of the \<^verbatim>\<open>df -P\<close> output of the spec's example, up to the last space.\<close>

definition df_output_head :: string where
  "df_output_head = ''Filesystem 1024-blocks Used Available Capacity Mounted on'' @ [newline] @ ''/dev/sda1 ...''"

section \<open>Properties of the quota backend\<close>

subsection \<open>Byte limits and block limits in \<^verbatim>\<open>SetLimits\<close>\<close>

lemma ceil_div_add:
  assumes "0 < k"
  shows "(n + (k - 1)) div k = ceil_div n k"
proof -
  define r where "r = n mod k"
  define kd where "kd = k * (n div k)"
  have n: "n = kd + r" and r: "r < k"
    using assms by (simp_all add: kd_def r_def)
  have s1: "k * Suc (n div k) = kd + k"
    by (simp add: kd_def)
  have s2: "k * Suc (Suc (n div k)) = kd + k + k"
    by (simp add: kd_def)
  show ?thesis
  proof (cases "r = 0")
    case True
    have "k * (n div k) \<le> n + (k - 1)"
      unfolding kd_def [symmetric] using n by linarith
    moreover have "n + (k - 1) < k * Suc (n div k)"
      unfolding s1 using n True assms by linarith
    ultimately have "(n + (k - 1)) div k = n div k"
      by (rule div_nat_eqI)
    then show ?thesis
      using True by (simp add: ceil_div_def r_def)
  next
    case False
    have "k * Suc (n div k) \<le> n + (k - 1)"
      unfolding s1 using n False by linarith
    moreover have "n + (k - 1) < k * Suc (Suc (n div k))"
      unfolding s2 using n r by linarith
    ultimately have "(n + (k - 1)) div k = Suc (n div k)"
      by (rule div_nat_eqI)
    then show ?thesis
      using False by (simp add: ceil_div_def r_def)
  qed
qed

lemma ceil_block_in_range:
  fixes b :: uint64
  assumes "unat b \<le> 2 ^ 64 - 1024"
  shows "unat ((b + QUOTA_BLOCK_SIZE - 1) div QUOTA_BLOCK_SIZE) = ceil_div (unat b) 1024"
proof -
  have sum: "unat (b + 1023) = unat b + 1023"
    using assms by (simp add: unat_word_ariths)
  have "unat ((b + 1023) div 1024) = (unat b + 1023) div 1024"
    by (simp add: unat_div sum)
  also have "\<dots> = ceil_div (unat b) 1024"
    using ceil_div_add [of 1024 "unat b"] by simp
  finally have "unat ((b + 1023) div 1024) = ceil_div (unat b) 1024" .
  moreover have "b + QUOTA_BLOCK_SIZE - 1 = b + 1023"
    by (simp add: QUOTA_BLOCK_SIZE_def)
  ultimately show ?thesis
    by (simp only: QUOTA_BLOCK_SIZE_def)
qed

lemma SetLimits_convert_soft:
  "DiskLimits.BlockSoft (SetLimits_convert l) =
     (if DiskLimits.ByteSoft l \<noteq> 0 then (DiskLimits.ByteSoft l + QUOTA_BLOCK_SIZE - 1) div QUOTA_BLOCK_SIZE else DiskLimits.BlockSoft l)"
  by (simp add: SetLimits_convert_def Let_def)

lemma SetLimits_convert_hard:
  "DiskLimits.BlockHard (SetLimits_convert l) =
     (if DiskLimits.ByteHard l \<noteq> 0 then (DiskLimits.ByteHard l + QUOTA_BLOCK_SIZE - 1) div QUOTA_BLOCK_SIZE else DiskLimits.BlockHard l)"
  by (simp add: SetLimits_convert_def Let_def)

lemma SetLimits_convert_inodes:
  "DiskLimits.InodeSoft (SetLimits_convert l) = DiskLimits.InodeSoft l \<and> DiskLimits.InodeHard (SetLimits_convert l) = DiskLimits.InodeHard l"
  by (simp add: SetLimits_convert_def Let_def)

lemma SetLimits_Cmd_Args:
  "Args (SetLimits_Cmd m uid l) =
     [''-u'', fmt_d (unat uid),
      fmt_d (unat (DiskLimits.BlockSoft (SetLimits_convert l))), fmt_d (unat (DiskLimits.BlockHard (SetLimits_convert l))),
      fmt_d (unat (DiskLimits.InodeSoft l)), fmt_d (unat (DiskLimits.InodeHard l)), mountPoint m]"
  by (simp add: SetLimits_Cmd_def Let_def SetLimits_convert_inodes)

lemma SetLimits_block_soft_in_range:
  assumes "DiskLimits.ByteSoft l \<noteq> 0" and "unat (DiskLimits.ByteSoft l) \<le> 2 ^ 64 - 1024"
  shows "Args (SetLimits_Cmd m uid l) ! 2 = fmt_d (ceil_div (unat (DiskLimits.ByteSoft l)) 1024)"
  using assms by (simp add: SetLimits_Cmd_Args SetLimits_convert_soft ceil_block_in_range)

lemma SetLimits_block_hard_in_range:
  assumes "DiskLimits.ByteHard l \<noteq> 0" and "unat (DiskLimits.ByteHard l) \<le> 2 ^ 64 - 1024"
  shows "Args (SetLimits_Cmd m uid l) ! 3 = fmt_d (ceil_div (unat (DiskLimits.ByteHard l)) 1024)"
  using assms by (simp add: SetLimits_Cmd_Args SetLimits_convert_hard ceil_block_in_range)

lemma SetLimits_block_passthrough:
  "DiskLimits.ByteSoft l = 0 \<Longrightarrow> Args (SetLimits_Cmd m uid l) ! 2 = fmt_d (unat (DiskLimits.BlockSoft l))"
  "DiskLimits.ByteHard l = 0 \<Longrightarrow> Args (SetLimits_Cmd m uid l) ! 3 = fmt_d (unat (DiskLimits.BlockHard l))"
  by (simp_all add: SetLimits_Cmd_Args SetLimits_convert_soft SetLimits_convert_hard)

lemma SetLimits_bytes_override_blocks:
  "DiskLimits.ByteSoft l \<noteq> 0 \<Longrightarrow> SetLimits_Cmd m uid (l\<lparr>DiskLimits.BlockSoft := x\<rparr>) = SetLimits_Cmd m uid l"
  "DiskLimits.ByteHard l \<noteq> 0 \<Longrightarrow> SetLimits_Cmd m uid (l\<lparr>DiskLimits.BlockHard := y\<rparr>) = SetLimits_Cmd m uid l"
  by (simp_all add: SetLimits_Cmd_def SetLimits_convert_def Let_def)

lemmas eval_quota = SetLimits_Cmd_def SetLimits_convert_def QUOTA_BLOCK_SIZE_def quota_manager_at_def
  fmt_d.simps digit_char_def ceil_div_def Let_def

text \<open>
  C1. For a byte limit of at most \<open>2\<^sup>6\<^sup>4 - 1024\<close> the block value handed to
  \<^verbatim>\<open>setquota\<close> is \<open>ceil(b / 1024)\<close>, and a byte limit of 0 leaves the caller's block
  value (the lemmas above). Beyond that bound the sum \<^verbatim>\<open>ByteSoft + 1024 - 1\<close> wraps
  around in \<^verbatim>\<open>uint64\<close>: for \<open>ByteSoft = 2\<^sup>6\<^sup>4 - 1\<close> the block-soft argument is
  \<open>0\<close>, whereas \<open>ceil(b / 1024)\<close> over the integers is \<open>18014398509481984\<close>.
\<close>

theorem SetLimits_ByteSoft_wraps:
  "Args (SetLimits_Cmd (quota_manager_at []) 7
      \<lparr>DiskLimits.BlockSoft = 0, DiskLimits.BlockHard = 0, DiskLimits.InodeSoft = 0, DiskLimits.InodeHard = 0,
       DiskLimits.ByteSoft = 18446744073709551615, DiskLimits.ByteHard = 0\<rparr>) ! 2 = ''0''
   \<and> fmt_d (ceil_div (unat (18446744073709551615 :: uint64)) 1024) = ''18014398509481984''"
  by (simp add: eval_quota)

text \<open>
  C10. A nonzero byte limit overwrites the block limit the caller supplied, whatever it
  is (lemma \<open>SetLimits_bytes_override_blocks\<close>), and up to \<open>2\<^sup>6\<^sup>4 - 1024\<close> the
  value written is \<open>ceil(bytes / 1024)\<close>. Past that bound the same wrap-around as in C1
  shows: with \<open>BlockHard = 5\<close> supplied and \<open>ByteHard = 2\<^sup>6\<^sup>4 - 1023\<close>, the block-hard
  argument is \<open>0\<close>, not \<open>ceil(ByteHard / 1024) = 18014398509481984\<close>.
\<close>

theorem SetLimits_ByteHard_override_wraps:
  "Args (SetLimits_Cmd (quota_manager_at []) 7
      \<lparr>DiskLimits.BlockSoft = 0, DiskLimits.BlockHard = 5, DiskLimits.InodeSoft = 0, DiskLimits.InodeHard = 0,
       DiskLimits.ByteSoft = 0, DiskLimits.ByteHard = 18446744073709550593\<rparr>) ! 3 = ''0''
   \<and> fmt_d (ceil_div (unat (18446744073709550593 :: uint64)) 1024) = ''18014398509481984''"
  by (simp add: eval_quota)


subsection \<open>The positional parse of \<^verbatim>\<open>GetLimits\<close> and \<^verbatim>\<open>GetUsage\<close>\<close>

lemma dropWhile_all: "\<forall>c\<in>set xs. P c \<Longrightarrow> dropWhile P (xs @ ys) = dropWhile P ys"
  by (induction xs) auto

lemma takeWhile_until: "\<forall>c\<in>set xs. P c \<Longrightarrow> \<not> P y \<Longrightarrow> takeWhile P (xs @ y # ys) = xs"
  by (induction xs) auto

lemma dropWhile_none: "\<forall>c\<in>set xs. \<not> P c \<Longrightarrow> dropWhile P xs = xs"
  by (cases xs) auto

lemma isDigit_not_space: "isDigit c \<Longrightarrow> \<not> isSpace c \<and> c \<noteq> newline"
  by (auto simp: isDigit_def isSpace_def newline_def)

lemma not_isDigit_separators: "\<not> isDigit CHR '' ''" "\<not> isDigit newline"
  by (simp_all add: isDigit_def newline_def)

lemma scanUint_field:
  assumes "decimal_field ds" and "\<not> isDigit c0"
    and "ParseUint ds < 2 ^ bitSize" and "ParseUint ds < 2 ^ 64"
  shows "scanUint bitSize (ds @ c0 # rest) = Scanned (ParseUint ds) (c0 # rest)"
proof -
  obtain d ds' where ds: "ds = d # ds'" and d: "isDigit d" and all: "\<forall>c\<in>set ds. isDigit c"
    using assms(1) by (cases ds) (auto simp: decimal_field_def list_all_iff)
  have skip: "SkipSpace (ds @ c0 # rest) = Scanned () (ds @ c0 # rest)"
    using isDigit_not_space [OF d] by (simp add: ds)
  have tok: "takeWhile isDigit (ds @ c0 # rest) = ds"
    using all assms(2) by (rule takeWhile_until)
  have rest: "dropWhile isDigit (ds @ c0 # rest) = c0 # rest"
    using dropWhile_all [OF all, of "c0 # rest"] assms(2) by simp
  show ?thesis
    using assms(3,4) by (simp add: scanUint_def skip tok rest ds [symmetric] Let_def) (simp add: ds)
qed

lemma advance_space_field:
  assumes "decimal_field ds"
  shows "advance_space (CHR '' '' # ds @ rest) = Scanned () (ds @ rest)"
proof -
  obtain d ds' where ds: "ds = d # ds'" and d: "isDigit d"
    using assms by (cases ds) (auto simp: decimal_field_def)
  show ?thesis
    using isDigit_not_space [OF d] by (simp add: ds isSpace_def newline_def)
qed

lemma Fscanf_repquota_line:
  assumes "decimal_field f1" "decimal_field f2" "decimal_field f3" "decimal_field f4"
    and "decimal_field f5" "decimal_field f6" "decimal_field f7" "decimal_field f8"
    and "ParseUint f1 < 2 ^ w1" "ParseUint f2 < 2 ^ w2" "ParseUint f3 < 2 ^ w3" "ParseUint f4 < 2 ^ w4"
    and "ParseUint f5 < 2 ^ w5" "ParseUint f6 < 2 ^ w6" "ParseUint f7 < 2 ^ w7" "ParseUint f8 < 2 ^ w8"
    and "ParseUint f1 < 2 ^ 64" "ParseUint f2 < 2 ^ 64" "ParseUint f3 < 2 ^ 64" "ParseUint f4 < 2 ^ 64"
    and "ParseUint f5 < 2 ^ 64" "ParseUint f6 < 2 ^ 64" "ParseUint f7 < 2 ^ 64" "ParseUint f8 < 2 ^ 64"
  shows "Fscanf [w1, w2, w3, w4, w5, w6, w7, w8] (repquota_line f1 f2 f3 f4 f5 f6 f7 f8) =
           Returns [ParseUint f1, ParseUint f2, ParseUint f3, ParseUint f4,
                    ParseUint f5, ParseUint f6, ParseUint f7, ParseUint f8] None"
  using assms
  by (simp add: Fscanf_def repquota_line_def scanUint_field advance_space_field not_isDigit_separators
        del: advance_space.simps)

lemma GetLimits_positional:
  assumes "StartCmd (runner m) (repquota_Cmd m uid) = (repquota_line f1 f2 f3 f4 f5 f6 f7 f8, None)"
    and "decimal_field f1" "decimal_field f2" "decimal_field f3" "decimal_field f4"
    and "decimal_field f5" "decimal_field f6" "decimal_field f7" "decimal_field f8"
    and "ParseUint f1 < 2 ^ 32" "ParseUint f2 < 2 ^ 32" "ParseUint f5 < 2 ^ 32" "ParseUint f6 < 2 ^ 32"
    and "ParseUint f3 < 2 ^ 64" "ParseUint f4 < 2 ^ 64" "ParseUint f7 < 2 ^ 64" "ParseUint f8 < 2 ^ 64"
  shows "GetLimits None m uid =
           Returns \<lparr>DiskLimits.BlockSoft = of_nat (ParseUint f3), DiskLimits.BlockHard = of_nat (ParseUint f4),
                    DiskLimits.InodeSoft = of_nat (ParseUint f7), DiskLimits.InodeHard = of_nat (ParseUint f8),
                    DiskLimits.ByteSoft = 0, DiskLimits.ByteHard = 0\<rparr> None"
proof -
  have "Fscanf [32, 32, 64, 64, 32, 32, 64, 64] (repquota_line f1 f2 f3 f4 f5 f6 f7 f8) =
           Returns [ParseUint f1, ParseUint f2, ParseUint f3, ParseUint f4,
                    ParseUint f5, ParseUint f6, ParseUint f7, ParseUint f8] None"
    using assms(2-) by (intro Fscanf_repquota_line) simp_all
  then show ?thesis
    using assms(1) by (simp add: GetLimits_def stored_def no_limits_def)
qed

lemma GetUsage_positional:
  assumes "StartCmd (runner m) (repquota_Cmd m uid) = (repquota_line f1 f2 f3 f4 f5 f6 f7 f8, None)"
    and "decimal_field f1" "decimal_field f2" "decimal_field f3" "decimal_field f4"
    and "decimal_field f5" "decimal_field f6" "decimal_field f7" "decimal_field f8"
    and "ParseUint f1 < 2 ^ 32" "ParseUint f3 < 2 ^ 32" "ParseUint f4 < 2 ^ 32" "ParseUint f5 < 2 ^ 32"
    and "ParseUint f7 < 2 ^ 32" "ParseUint f8 < 2 ^ 32"
    and "ParseUint f2 < 2 ^ 64" "ParseUint f6 < 2 ^ 64"
  shows "GetUsage None m uid =
           Returns \<lparr>BytesUsed = of_nat (ParseUint f2), InodesUsed = of_nat (ParseUint f6)\<rparr> None"
proof -
  have "Fscanf [32, 64, 32, 32, 32, 64, 32, 32] (repquota_line f1 f2 f3 f4 f5 f6 f7 f8) =
           Returns [ParseUint f1, ParseUint f2, ParseUint f3, ParseUint f4,
                    ParseUint f5, ParseUint f6, ParseUint f7, ParseUint f8] None"
    using assms(2-) by (intro Fscanf_repquota_line) simp_all
  then show ?thesis
    using assms(1) by (simp add: GetUsage_def stored_def)
qed

lemmas scan_eval = GetLimits_def GetUsage_def quota_manager_at_def fixed_runner_def Fscanf_def
  scanUint_def ParseUint_def isDigit_def digit_val_def isSpace_def newline_def stored_def no_limits_def

lemma GetLimits_repquota_example:
  "GetLimits None (quota_manager_at (''0 500 1000 1200 0 300 900 950'' @ [newline])) uid =
     Returns \<lparr>DiskLimits.BlockSoft = 1000, DiskLimits.BlockHard = 1200, DiskLimits.InodeSoft = 900, DiskLimits.InodeHard = 950,
              DiskLimits.ByteSoft = 0, DiskLimits.ByteHard = 0\<rparr> None"
  by (simp add: scan_eval)

lemma GetUsage_repquota_example:
  "GetUsage None (quota_manager_at (''0 500 1000 1200 0 300 900 950'' @ [newline])) uid =
     Returns \<lparr>BytesUsed = 500, InodesUsed = 300\<rparr> None"
  by (simp add: scan_eval)

lemma GetLimits_waits_for_line_end:
  "GetLimits None (quota_manager_at ''0 500 1000 1200 0 300 900 950'') uid = Blocks"
  by (simp add: scan_eval)

text \<open>
  C3. On the line \<^verbatim>\<open>0 500 1000 1200 0 300 900 950\<close> the two functions return the values
  of the spec, and on every line of eight fields \<^verbatim>\<open>GetLimits\<close> returns fields 3, 4, 7, 8
  and \<^verbatim>\<open>GetUsage\<close> fields 2 and 6, as long as each selected field fits 64 bits and each
  skipped field fits 32 bits (the lemmas above). The second bound is where the code parts
  from the claim: a skipped field is scanned into a \<^verbatim>\<open>uint32\<close>. When field 2, which
  \<^verbatim>\<open>GetUsage\<close> reads as the 64-bit \<^verbatim>\<open>BytesUsed\<close>, is \<open>5000000000\<close>,
  \<^verbatim>\<open>GetLimits\<close> stops there with an overflow error and returns no limit at all,
  although fields 3, 4, 7 and 8 are the same as before.
\<close>

theorem GetLimits_skipped_field_overflows:
  "GetLimits None (quota_manager_at (''0 5000000000 1000 1200 0 300 900 950'' @ [newline])) 7 =
     Returns no_limits (Some (errors_New ''unsigned integer overflow on token 5000000000''))
   \<and> GetUsage None (quota_manager_at (''0 5000000000 1000 1200 0 300 900 950'' @ [newline])) 7 =
     Returns \<lparr>BytesUsed = 5000000000, InodesUsed = 300\<rparr> None"
  by (simp add: scan_eval)


subsection \<open>The mount point cached by \<^verbatim>\<open>quota_manager.New\<close>\<close>

lemma Split_on_nonempty: "Split_on sep s \<noteq> []"
  by (induction s) (auto split: list.splits)

lemma Split_on_append_sep:
  "Split_on sep (pre @ sep # rest) = Split_on sep pre @ Split_on sep rest"
proof (induction pre)
  case Nil
  show ?case by simp
next
  case (Cons x pre)
  obtain w ws where w: "Split_on sep pre = w # ws"
    using Split_on_nonempty [of sep pre] by (cases "Split_on sep pre") auto
  show ?case
    by (simp add: Cons.IH w)
qed

lemma Split_on_no_sep: "sep \<notin> set s \<Longrightarrow> Split_on sep s = [s]"
  by (induction s) auto

lemma last_Split_on:
  assumes "sep \<notin> set rest"
  shows "last (Split_on sep (pre @ sep # rest)) = rest"
  using assms by (simp add: Split_on_append_sep Split_on_no_sep)

lemma Trim_char_token:
  assumes "ch \<notin> set tok" and "set nls \<subseteq> {ch}"
  shows "Trim_char ch (tok @ nls) = tok"
proof (cases tok)
  case Nil
  have d: "dropWhile (\<lambda>c. c = ch) nls = []"
    using assms(2) by auto
  show ?thesis
    by (simp add: Trim_char_def Nil d)
next
  case (Cons t ts)
  have front: "dropWhile (\<lambda>c. c = ch) (tok @ nls) = tok @ nls"
    using assms(1) Cons by auto
  have "dropWhile (\<lambda>c. c = ch) (rev nls @ rev tok) = dropWhile (\<lambda>c. c = ch) (rev tok)"
    using assms(2) dropWhile_all [of "rev nls" "\<lambda>c. c = ch" "rev tok"] by auto
  also have "\<dots> = rev tok"
    using assms(1) dropWhile_none [of "rev tok" "\<lambda>c. c = ch"] by auto
  finally have bk: "dropWhile (\<lambda>c. c = ch) (rev nls @ rev tok) = rev tok" .
  show ?thesis
    unfolding Trim_char_def front by (simp add: bk)
qed

lemma last_whitespace_token_shape:
  assumes "tok \<noteq> []" and "\<forall>c\<in>set tok. \<not> isSpace c" and "set nls \<subseteq> {newline}"
  shows "last_whitespace_token (pre @ CHR '' '' # tok @ nls) = tok"
proof -
  have nl: "\<forall>c\<in>set (rev nls). isSpace c"
    using assms(3) by (auto simp: isSpace_def newline_def)
  have "dropWhile isSpace (rev nls @ rev tok @ CHR '' '' # rev pre) = dropWhile isSpace (rev tok @ CHR '' '' # rev pre)"
    using nl dropWhile_all [of "rev nls" isSpace "rev tok @ CHR '' '' # rev pre"] by simp
  also have "\<dots> = rev tok @ CHR '' '' # rev pre"
    using assms(1,2) by (cases "rev tok") auto
  finally have d: "dropWhile isSpace (rev (pre @ CHR '' '' # tok @ nls)) = rev tok @ CHR '' '' # rev pre"
    by simp
  have sp: "isSpace CHR '' ''"
    by (simp add: isSpace_def)
  have "takeWhile (\<lambda>c. \<not> isSpace c) (rev tok @ CHR '' '' # rev pre) = rev tok"
    using assms(2) sp takeWhile_until [of "rev tok" "\<lambda>c. \<not> isSpace c" "CHR '' ''" "rev pre"] by simp
  then show ?thesis
    unfolding last_whitespace_token_def d by simp
qed

text \<open>
  C7. When \<^verbatim>\<open>df -P\<close> succeeds and its output ends in a space, a token free of white
  space and then only newlines (the shape of the last line of a \<^verbatim>\<open>df -P\<close> report),
  the mount point cached at construction is that token: the last whitespace-separated
  token of the final line, without the trailing newline. For the output of the spec's
  example it is \<^verbatim>\<open>/var/containers\<close>.
\<close>

theorem New_mountPoint_last_token:
  assumes "RunCmd r \<lparr>Cmd.Path = ''df'', Args = [''-P'', depot]\<rparr> = (pre @ CHR '' '' # tok @ nls, None)"
    and "tok \<noteq> []" and "\<forall>c\<in>set tok. \<not> isSpace c" and "set nls \<subseteq> {newline}"
  shows "\<exists>m. quota_manager_New depot root r = Inr m \<and> mountPoint m = tok
            \<and> mountPoint m = last_whitespace_token (pre @ CHR '' '' # tok @ nls)"
proof -
  have sp: "CHR '' '' \<notin> set (tok @ nls)" and nl: "newline \<notin> set tok"
    using assms(3,4) by (auto simp: isSpace_def newline_def)
  have "last (Split_on CHR '' '' (pre @ CHR '' '' # tok @ nls)) = tok @ nls"
    using sp by (rule last_Split_on)
  moreover have "Trim_char newline (tok @ nls) = tok"
    using nl assms(4) by (rule Trim_char_token)
  ultimately show ?thesis
    using assms by (simp add: quota_manager_New_def last_whitespace_token_shape)
qed

theorem New_mountPoint_df_example:
  "\<exists>m. quota_manager_New ''/var/depot'' ''/root''
          (fixed_runner (df_output_head @ CHR '' '' # ''/var/containers'' @ [newline])) = Inr m
       \<and> mountPoint m = ''/var/containers''
       \<and> mountPoint m = last_whitespace_token (df_output_head @ CHR '' '' # ''/var/containers'' @ [newline])"
proof -
  have run: "RunCmd (fixed_runner (df_output_head @ CHR '' '' # ''/var/containers'' @ [newline]))
               \<lparr>Cmd.Path = ''df'', Args = [''-P'', ''/var/depot'']\<rparr>
             = (df_output_head @ CHR '' '' # ''/var/containers'' @ [newline], None)"
    by (simp add: fixed_runner_def)
  have tok: "''/var/containers'' \<noteq> []" "\<forall>c\<in>set ''/var/containers''. \<not> isSpace c"
    by (simp_all add: isSpace_def)
  have nls: "set [newline] \<subseteq> {newline}"
    by simp
  show ?thesis
    using New_mountPoint_last_token [OF run tok nls] .
qed


section \<open>Properties of the control protocol client\<close>

subsection \<open>The demultiplexer\<close>

lemma streamPayloads_Suc:
  "streamPayloads (Suc n) env reader =
     (case fst (ReadMessage env reader) of
        Inl err \<Rightarrow> ([CloseChan, CloseReader], True)
      | Inr payload \<Rightarrow>
          (case ProcessPayload.ExitStatus payload of
             Some status \<Rightarrow>
               ([Send \<lparr>ProcessStream.Source = ProcessStreamSource_zero, ProcessStream.Data = [],
                        ProcessStream.ExitStatus = Some status\<rparr>, CloseChan, CloseReader], True)
           | None \<Rightarrow>
               (Send (data_item payload) # fst (streamPayloads n env (snd (ReadMessage env reader))),
                snd (streamPayloads n env (snd (ReadMessage env reader))))))"
  by (cases "ReadMessage env reader")
     (auto simp: data_item_def Let_def split: sum.splits option.splits prod.splits)

declare streamPayloads.simps(2) [simp del]

lemma streamPayloads_shape:
  "\<exists>items. fst (streamPayloads n env reader)
            = map Send items @ (if snd (streamPayloads n env reader) then [CloseChan, CloseReader] else [])
         \<and> (\<forall>i<length items. ProcessStream.ExitStatus (items ! i) \<noteq> None
                \<longrightarrow> Suc i = length items \<and> snd (streamPayloads n env reader))"
proof (induction n arbitrary: reader)
  case 0
  show ?case by simp
next
  case (Suc n)
  show ?case
  proof (cases "fst (ReadMessage env reader)")
    case (Inl err)
    then show ?thesis
      by (simp add: streamPayloads_Suc)
  next
    case (Inr payload)
    show ?thesis
    proof (cases "ProcessPayload.ExitStatus payload")
      case (Some status)
      let ?x = "\<lparr>ProcessStream.Source = ProcessStreamSource_zero, ProcessStream.Data = [],
                  ProcessStream.ExitStatus = Some status\<rparr>"
      have "fst (streamPayloads (Suc n) env reader) = map Send [?x] @ [CloseChan, CloseReader]"
        and "snd (streamPayloads (Suc n) env reader)"
        using Inr Some by (simp_all add: streamPayloads_Suc)
      then show ?thesis
        by (intro exI [of _ "[?x]"]) simp
    next
      case None
      let ?rest = "streamPayloads n env (snd (ReadMessage env reader))"
      obtain items where items: "fst ?rest = map Send items @ (if snd ?rest then [CloseChan, CloseReader] else [])"
        and last: "\<forall>i<length items. ProcessStream.ExitStatus (items ! i) \<noteq> None
                     \<longrightarrow> Suc i = length items \<and> snd ?rest"
        using Suc.IH [of "snd (ReadMessage env reader)"] by blast
      have step: "fst (streamPayloads (Suc n) env reader) = Send (data_item payload) # fst ?rest"
        "snd (streamPayloads (Suc n) env reader) = snd ?rest"
        using Inr None by (simp_all add: streamPayloads_Suc)
      have "\<forall>i<length (data_item payload # items).
              ProcessStream.ExitStatus ((data_item payload # items) ! i) \<noteq> None
              \<longrightarrow> Suc i = length (data_item payload # items) \<and> snd ?rest"
      proof (intro allI impI)
        fix i
        assume i: "i < length (data_item payload # items)"
          and ex: "ProcessStream.ExitStatus ((data_item payload # items) ! i) \<noteq> None"
        show "Suc i = length (data_item payload # items) \<and> snd ?rest"
        proof (cases i)
          case 0
          then show ?thesis using ex by (simp add: data_item_def)
        next
          case (Suc j)
          then show ?thesis using i ex last by simp
        qed
      qed
      then show ?thesis
        unfolding step by (intro exI [of _ "data_item payload # items"]) (simp add: items)
    qed
  qed
qed

lemma streamPayloads_finishes:
  "k < n \<Longrightarrow> terminal_read (fst (ReadMessage env (reader_after k env reader)))
     \<Longrightarrow> snd (streamPayloads n env reader)"
proof (induction n arbitrary: k reader)
  case 0
  then show ?case by simp
next
  case (Suc n)
  show ?case
  proof (cases k)
    case 0
    then show ?thesis
      using Suc.prems by (auto simp: streamPayloads_Suc terminal_read_def split: sum.splits option.splits)
  next
    case (Suc j)
    then have "snd (streamPayloads n env (snd (ReadMessage env reader)))"
      using Suc.prems Suc.IH [of j "snd (ReadMessage env reader)"] by simp
    then show ?thesis
      by (auto simp: streamPayloads_Suc split: sum.splits option.splits)
  qed
qed

lemma streamPayloads_hello_goodbye_42:
  "streamPayloads (Suc (Suc (Suc n))) (answering resp) hello_goodbye_42 =
     ([Send \<lparr>ProcessStream.Source = ProcessStreamSourceStdout, ProcessStream.Data = ''hello'' @ [newline],
              ProcessStream.ExitStatus = None\<rparr>,
       Send \<lparr>ProcessStream.Source = ProcessStreamSourceStdout, ProcessStream.Data = ''goodbye'' @ [newline],
              ProcessStream.ExitStatus = None\<rparr>,
       Send \<lparr>ProcessStream.Source = ProcessStreamSource_zero, ProcessStream.Data = [],
              ProcessStream.ExitStatus = Some 42\<rparr>,
       CloseChan, CloseReader], True)"
  by (simp add: streamPayloads_Suc hello_goodbye_42_def answering_def read_list_def stdout_payload_def
        exit_payload_def data_item_def GetSource_def GetData_def)


lemma streamPayloads_cong:
  "ReadMessage env = ReadMessage env' \<Longrightarrow> streamPayloads n env reader = streamPayloads n env' reader"
  by (induction n arbitrary: reader) (auto simp: streamPayloads_Suc split: sum.splits option.splits)

text \<open>
  C4. The demultiplexer sends at most one item with an exit status; that item is the last
  one sent, the channel is closed right after it and the body after that. A read that
  fails (the chunk stream ended or broke) closes the channel as well: once some read
  within the iterations followed is an error or carries an exit status, the task has
  finished, and a finished task's last two operations are the two closes. The stream
  "hello", "goodbye", exit status 42 is observed as exactly these three items, in order,
  and then the close.
\<close>

theorem streamPayloads_exit_status_last_then_closed:
  "(\<exists>items. fst (streamPayloads n env reader)
             = map Send items @ (if snd (streamPayloads n env reader) then [CloseChan, CloseReader] else [])
          \<and> (\<forall>i<length items. ProcessStream.ExitStatus (items ! i) \<noteq> None
                 \<longrightarrow> Suc i = length items \<and> snd (streamPayloads n env reader)))
   \<and> ((\<exists>k<n. terminal_read (fst (ReadMessage env (reader_after k env reader))))
         \<longrightarrow> snd (streamPayloads n env reader))
   \<and> streamPayloads (Suc (Suc (Suc m))) (answering resp) hello_goodbye_42 =
       ([Send \<lparr>ProcessStream.Source = ProcessStreamSourceStdout, ProcessStream.Data = ''hello'' @ [newline],
                ProcessStream.ExitStatus = None\<rparr>,
         Send \<lparr>ProcessStream.Source = ProcessStreamSourceStdout, ProcessStream.Data = ''goodbye'' @ [newline],
                ProcessStream.ExitStatus = None\<rparr>,
         Send \<lparr>ProcessStream.Source = ProcessStreamSource_zero, ProcessStream.Data = [],
                ProcessStream.ExitStatus = Some 42\<rparr>,
         CloseChan, CloseReader], True)"
  using streamPayloads_shape [of n env reader] streamPayloads_finishes [of _ n env reader]
    streamPayloads_hello_goodbye_42 [of m resp]
  by blast

theorem streamPayloads_closed_witness:
  "(\<exists>k<4. terminal_read (fst (ReadMessage payload_wire (reader_after k payload_wire hello_goodbye_42))))
   \<and> snd (streamPayloads 4 payload_wire hello_goodbye_42)"
proof -
  have "reader_after 2 payload_wire hello_goodbye_42 = [exit_payload 42]"
    by (simp add: numeral_2_eq_2 hello_goodbye_42_def payload_wire_def answering_def read_list_def)
  then have "terminal_read (fst (ReadMessage payload_wire (reader_after 2 payload_wire hello_goodbye_42)))"
    by (simp add: terminal_read_def payload_wire_def answering_def read_list_def exit_payload_def)
  then have ends: "\<exists>k<4. terminal_read (fst (ReadMessage payload_wire (reader_after k payload_wire hello_goodbye_42)))"
    by (intro exI [of _ 2]) simp
  have fin: "snd (streamPayloads 4 payload_wire hello_goodbye_42)"
    using streamPayloads_exit_status_last_then_closed
            [of 4 payload_wire hello_goodbye_42, THEN conjunct2, THEN conjunct1] ends
    by (rule mp)
  show ?thesis
    using ends fin by (rule conjI)
qed

subsection \<open>Run and Attach\<close>

lemma Run_on_body:
  assumes "postWithProcessPayloadResponse env c ''/run'' (RunRequest_of handle spec) = Inr respBody"
  shows "Run n env c handle spec =
           (case fst (ReadMessage env respBody) of
              Inl err \<Rightarrow> Inl err
            | Inr firstResponse \<Rightarrow>
                Inr (GetUint (ProcessPayload.ProcessId firstResponse),
                     streamPayloads n env (snd (ReadMessage env respBody))))"
  using assms by (cases "ReadMessage env respBody") (simp add: Run_def split: sum.splits)

lemma Attach_on_body:
  assumes "postWithProcessPayloadResponse env c ''/attach''
             \<lparr>AttachRequest.Handle = Some handle, AttachRequest.ProcessId = Some processID\<rparr> = Inr respBody"
  shows "Attach n env c handle processID = Inr (streamPayloads n env respBody)"
  using assms by (simp add: Attach_def)

lemma Attach_delivers_what_Run_consumes:
  assumes run: "postWithProcessPayloadResponse envR c ''/run'' (RunRequest_of handle spec) = Inr respBody"
    and attach: "postWithProcessPayloadResponse envA c ''/attach''
             \<lparr>AttachRequest.Handle = Some handle, AttachRequest.ProcessId = Some processID\<rparr> = Inr respBody"
    and same: "ReadMessage envA = ReadMessage envR"
    and first: "fst (ReadMessage envR respBody) = Inr firstResponse"
    and data: "ProcessPayload.ExitStatus firstResponse = None"
  shows "\<exists>events finished.
           Run n envR c handle spec = Inr (GetUint (ProcessPayload.ProcessId firstResponse), events, finished)
         \<and> Attach (Suc n) envA c handle processID = Inr (Send (data_item firstResponse) # events, finished)"
proof -
  let ?rest = "streamPayloads n envR (snd (ReadMessage envR respBody))"
  have "Run n envR c handle spec = Inr (GetUint (ProcessPayload.ProcessId firstResponse), fst ?rest, snd ?rest)"
    using Run_on_body [OF run, of n] first by simp
  moreover have "streamPayloads (Suc n) envA respBody = (Send (data_item firstResponse) # fst ?rest, snd ?rest)"
    using first data same streamPayloads_cong [OF same, of n "snd (ReadMessage envR respBody)"]
    by (simp add: streamPayloads_Suc)
  ultimately show ?thesis
    using Attach_on_body [OF attach, of "Suc n"] by simp
qed

text \<open>
  C9. Once the request of \<^verbatim>\<open>Run\<close> is answered with a body, \<^verbatim>\<open>Run\<close> reads one
  message from it before it returns: a failed read is its error, otherwise the process ID
  it returns is the one of that message, and the channel carries what the demultiplexer
  makes of the body as that one read left it. \<^verbatim>\<open>Attach\<close> reads nothing itself: the
  demultiplexer starts on the body as it was returned. So on the same body, with a first
  message that holds no exit status, \<^verbatim>\<open>Attach\<close> delivers that message on the
  channel, followed by exactly what \<^verbatim>\<open>Run\<close> delivers.
\<close>

theorem Run_reads_first_message_Attach_none:
  "(postWithProcessPayloadResponse envR c ''/run'' (RunRequest_of handle spec) = Inr respBody \<longrightarrow>
      Run n envR c handle spec =
        (case fst (ReadMessage envR respBody) of
           Inl err \<Rightarrow> Inl err
         | Inr firstResponse \<Rightarrow>
             Inr (GetUint (ProcessPayload.ProcessId firstResponse),
                  streamPayloads n envR (snd (ReadMessage envR respBody)))))
   \<and> (postWithProcessPayloadResponse envA c ''/attach''
          \<lparr>AttachRequest.Handle = Some handle, AttachRequest.ProcessId = Some processID\<rparr> = Inr body' \<longrightarrow>
        Attach n envA c handle processID = Inr (streamPayloads n envA body'))
   \<and> (postWithProcessPayloadResponse envR c ''/run'' (RunRequest_of handle spec) = Inr respBody
        \<and> postWithProcessPayloadResponse envA c ''/attach''
             \<lparr>AttachRequest.Handle = Some handle, AttachRequest.ProcessId = Some processID\<rparr> = Inr respBody
        \<and> ReadMessage envA = ReadMessage envR
        \<and> fst (ReadMessage envR respBody) = Inr firstResponse
        \<and> ProcessPayload.ExitStatus firstResponse = None \<longrightarrow>
        (\<exists>events finished.
            Run n envR c handle spec = Inr (GetUint (ProcessPayload.ProcessId firstResponse), events, finished)
          \<and> Attach (Suc n) envA c handle processID = Inr (Send (data_item firstResponse) # events, finished)))"
  using Run_on_body [of envR c handle spec respBody n] Attach_on_body [of envA c handle processID body' n]
    Attach_delivers_what_Run_consumes [of envR c handle spec respBody envA processID firstResponse n]
  by blast

lemma post_payload_answering:
  "postWithProcessPayloadResponse (answering (ok_response b)) c route req = Inr b"
  by (simp add: postWithProcessPayloadResponse_def answering_def ok_response_def http_StatusOK_def)

theorem Run_hello_goodbye_42_witness:
  "postWithProcessPayloadResponse (answering (ok_response (first_payload # hello_goodbye_42))) warden_conn
       ''/run'' (RunRequest_of ''handle-a'' echo_spec) = Inr (first_payload # hello_goodbye_42)
   \<and> Run 4 (answering (ok_response (first_payload # hello_goodbye_42))) warden_conn ''handle-a'' echo_spec =
       Inr (7,
            [Send \<lparr>ProcessStream.Source = ProcessStreamSourceStdout, ProcessStream.Data = ''hello'' @ [newline],
                    ProcessStream.ExitStatus = None\<rparr>,
             Send \<lparr>ProcessStream.Source = ProcessStreamSourceStdout, ProcessStream.Data = ''goodbye'' @ [newline],
                    ProcessStream.ExitStatus = None\<rparr>,
             Send \<lparr>ProcessStream.Source = ProcessStreamSource_zero, ProcessStream.Data = [],
                    ProcessStream.ExitStatus = Some 42\<rparr>,
             CloseChan, CloseReader],
            True)"
proof -
  let ?env = "answering (ok_response (first_payload # hello_goodbye_42))
                :: (RunRequest, RunRequest, ProcessPayload list, ProcessPayload) wire"
  have body: "postWithProcessPayloadResponse ?env warden_conn ''/run'' (RunRequest_of ''handle-a'' echo_spec)
                = Inr (first_payload # hello_goodbye_42)"
    by (rule post_payload_answering)
  have first: "ReadMessage ?env (first_payload # hello_goodbye_42) = (Inr first_payload, hello_goodbye_42)"
    by (simp add: answering_def read_list_def)
  have "Run 4 ?env warden_conn ''handle-a'' echo_spec =
          Inr (GetUint (ProcessPayload.ProcessId first_payload), streamPayloads 4 ?env hello_goodbye_42)"
    using Run_reads_first_message_Attach_none
            [of ?env warden_conn "''handle-a''" echo_spec "first_payload # hello_goodbye_42" 4,
             THEN conjunct1, THEN mp, OF body]
    by (simp add: first)
  moreover have "streamPayloads 4 ?env hello_goodbye_42 = streamPayloads (Suc (Suc (Suc (Suc 0)))) ?env hello_goodbye_42"
    by (simp add: numeral_eq_Suc)
  ultimately show ?thesis
    using body by (simp add: streamPayloads_hello_goodbye_42 first_payload_def GetUint_def)
qed


subsection \<open>The limit operations\<close>

lemmas limit_defs = LimitBandwidth_def CurrentBandwidthLimits_def LimitCPU_def CurrentCPULimits_def
  LimitDisk_def CurrentDiskLimits_def LimitMemory_def CurrentMemoryLimits_def

lemmas limit_of_defs = decoded_def BandwidthLimits_of_def CPULimits_of_def DiskLimits_of_def
  MemoryLimits_of_def

lemmas presence_defs = loopback_def present_def bandwidth_presence_def cpu_presence_def
  disk_presence_def memory_presence_def warden_url_def GetUint_def no_limits_def all_present_def

text \<open>
  An encoded request that the server answers: what \<^verbatim>\<open>post\<close> returns, passed on as the
  limit operations do, is the response path applied to the server's response.
\<close>

lemma post_response_path:
  assumes "WriteMessage env req = Inr reqBody"
    and "Post env \<lparr>via = httpClient c, url = warden_url route,
                    bodyType = ''application/octet-stream'', body = Some reqBody\<rparr> = Inr resp"
  shows "decoded f (post env c route req) = response_path f env resp"
  using assms by (auto simp: post_def response_path_def decoded_def)

lemma CurrentBandwidthLimits_answered:
  assumes "WriteMessage env
           \<lparr>LimitBandwidthRequest.Handle = Some handle,
            LimitBandwidthRequest.Rate = None, LimitBandwidthRequest.Burst = None\<rparr> = Inr reqBody"
    and "Post env \<lparr>via = httpClient c, url = warden_url ''/limit_bandwidth'',
                    bodyType = ''application/octet-stream'', body = Some reqBody\<rparr> = Inr resp"
  shows "CurrentBandwidthLimits env c handle = response_path BandwidthLimits_of env resp"
proof -
  have "CurrentBandwidthLimits env c handle =
          decoded BandwidthLimits_of
            (post env c ''/limit_bandwidth''
           \<lparr>LimitBandwidthRequest.Handle = Some handle,
            LimitBandwidthRequest.Rate = None, LimitBandwidthRequest.Burst = None\<rparr>)"
    by (simp add: CurrentBandwidthLimits_def limit_of_defs split: sum.splits)
  then show ?thesis
    using post_response_path [OF assms] by simp
qed

lemma LimitBandwidth_answered:
  assumes "WriteMessage env
           \<lparr>LimitBandwidthRequest.Handle = Some handle,
            LimitBandwidthRequest.Rate = Some (RateInBytesPerSecond bandwidth),
            LimitBandwidthRequest.Burst = Some (BurstRateInBytesPerSecond bandwidth)\<rparr> = Inr reqBody"
    and "Post env \<lparr>via = httpClient c, url = warden_url ''/limit_bandwidth'',
                    bodyType = ''application/octet-stream'', body = Some reqBody\<rparr> = Inr resp"
  shows "LimitBandwidth env c handle bandwidth = response_path BandwidthLimits_of env resp"
proof -
  have "LimitBandwidth env c handle bandwidth =
          decoded BandwidthLimits_of
            (post env c ''/limit_bandwidth''
           \<lparr>LimitBandwidthRequest.Handle = Some handle,
            LimitBandwidthRequest.Rate = Some (RateInBytesPerSecond bandwidth),
            LimitBandwidthRequest.Burst = Some (BurstRateInBytesPerSecond bandwidth)\<rparr>)"
    by (simp add: LimitBandwidth_def limit_of_defs split: sum.splits)
  then show ?thesis
    using post_response_path [OF assms] by simp
qed

lemma CurrentBandwidthLimits_loopback:
  "CurrentBandwidthLimits (loopback ''/limit_bandwidth'' bandwidth_presence) c handle
     = Inr \<lparr>RateInBytesPerSecond = 0, BurstRateInBytesPerSecond = 0\<rparr>"
  by (simp add: CurrentBandwidthLimits_def post_def presence_defs)

lemma LimitBandwidth_loopback:
  "LimitBandwidth (loopback ''/limit_bandwidth'' bandwidth_presence) c handle bandwidth
     = Inr \<lparr>RateInBytesPerSecond = 1, BurstRateInBytesPerSecond = 1\<rparr>"
  by (simp add: LimitBandwidth_def post_def presence_defs)

lemma CurrentCPULimits_answered:
  assumes "WriteMessage env
           \<lparr>LimitCpuRequest.Handle = Some handle, LimitCpuRequest.LimitInShares = None\<rparr> = Inr reqBody"
    and "Post env \<lparr>via = httpClient c, url = warden_url ''/limit_cpu'',
                    bodyType = ''application/octet-stream'', body = Some reqBody\<rparr> = Inr resp"
  shows "CurrentCPULimits env c handle = response_path CPULimits_of env resp"
proof -
  have "CurrentCPULimits env c handle =
          decoded CPULimits_of
            (post env c ''/limit_cpu''
           \<lparr>LimitCpuRequest.Handle = Some handle, LimitCpuRequest.LimitInShares = None\<rparr>)"
    by (simp add: CurrentCPULimits_def limit_of_defs split: sum.splits)
  then show ?thesis
    using post_response_path [OF assms] by simp
qed

lemma LimitCPU_answered:
  assumes "WriteMessage env
           \<lparr>LimitCpuRequest.Handle = Some handle,
            LimitCpuRequest.LimitInShares = Some (CPULimits.LimitInShares cpu)\<rparr> = Inr reqBody"
    and "Post env \<lparr>via = httpClient c, url = warden_url ''/limit_cpu'',
                    bodyType = ''application/octet-stream'', body = Some reqBody\<rparr> = Inr resp"
  shows "LimitCPU env c handle cpu = response_path CPULimits_of env resp"
proof -
  have "LimitCPU env c handle cpu =
          decoded CPULimits_of
            (post env c ''/limit_cpu''
           \<lparr>LimitCpuRequest.Handle = Some handle,
            LimitCpuRequest.LimitInShares = Some (CPULimits.LimitInShares cpu)\<rparr>)"
    by (simp add: LimitCPU_def limit_of_defs split: sum.splits)
  then show ?thesis
    using post_response_path [OF assms] by simp
qed

lemma CurrentCPULimits_loopback:
  "CurrentCPULimits (loopback ''/limit_cpu'' cpu_presence) c handle
     = Inr \<lparr>CPULimits.LimitInShares = 0\<rparr>"
  by (simp add: CurrentCPULimits_def post_def presence_defs)

lemma LimitCPU_loopback:
  "LimitCPU (loopback ''/limit_cpu'' cpu_presence) c handle cpu
     = Inr \<lparr>CPULimits.LimitInShares = 1\<rparr>"
  by (simp add: LimitCPU_def post_def presence_defs)

lemma CurrentDiskLimits_answered:
  assumes "WriteMessage env
           \<lparr>LimitDiskRequest.Handle = Some handle,
            LimitDiskRequest.BlockSoft = None, LimitDiskRequest.BlockHard = None,
            LimitDiskRequest.InodeSoft = None, LimitDiskRequest.InodeHard = None,
            LimitDiskRequest.ByteSoft = None, LimitDiskRequest.ByteHard = None\<rparr> = Inr reqBody"
    and "Post env \<lparr>via = httpClient c, url = warden_url ''/limit_disk'',
                    bodyType = ''application/octet-stream'', body = Some reqBody\<rparr> = Inr resp"
  shows "CurrentDiskLimits env c handle = response_path DiskLimits_of env resp"
proof -
  have "CurrentDiskLimits env c handle =
          decoded DiskLimits_of
            (post env c ''/limit_disk''
           \<lparr>LimitDiskRequest.Handle = Some handle,
            LimitDiskRequest.BlockSoft = None, LimitDiskRequest.BlockHard = None,
            LimitDiskRequest.InodeSoft = None, LimitDiskRequest.InodeHard = None,
            LimitDiskRequest.ByteSoft = None, LimitDiskRequest.ByteHard = None\<rparr>)"
    by (simp add: CurrentDiskLimits_def limit_of_defs split: sum.splits)
  then show ?thesis
    using post_response_path [OF assms] by simp
qed

lemma LimitDisk_answered:
  assumes "WriteMessage env
           \<lparr>LimitDiskRequest.Handle = Some handle,
            LimitDiskRequest.BlockSoft = Some (DiskLimits.BlockSoft disk),
            LimitDiskRequest.BlockHard = Some (DiskLimits.BlockHard disk),
            LimitDiskRequest.InodeSoft = Some (DiskLimits.InodeSoft disk),
            LimitDiskRequest.InodeHard = Some (DiskLimits.InodeHard disk),
            LimitDiskRequest.ByteSoft = Some (DiskLimits.ByteSoft disk),
            LimitDiskRequest.ByteHard = Some (DiskLimits.ByteHard disk)\<rparr> = Inr reqBody"
    and "Post env \<lparr>via = httpClient c, url = warden_url ''/limit_disk'',
                    bodyType = ''application/octet-stream'', body = Some reqBody\<rparr> = Inr resp"
  shows "LimitDisk env c handle disk = response_path DiskLimits_of env resp"
proof -
  have "LimitDisk env c handle disk =
          decoded DiskLimits_of
            (post env c ''/limit_disk''
           \<lparr>LimitDiskRequest.Handle = Some handle,
            LimitDiskRequest.BlockSoft = Some (DiskLimits.BlockSoft disk),
            LimitDiskRequest.BlockHard = Some (DiskLimits.BlockHard disk),
            LimitDiskRequest.InodeSoft = Some (DiskLimits.InodeSoft disk),
            LimitDiskRequest.InodeHard = Some (DiskLimits.InodeHard disk),
            LimitDiskRequest.ByteSoft = Some (DiskLimits.ByteSoft disk),
            LimitDiskRequest.ByteHard = Some (DiskLimits.ByteHard disk)\<rparr>)"
    by (simp add: LimitDisk_def limit_of_defs split: sum.splits)
  then show ?thesis
    using post_response_path [OF assms] by simp
qed

lemma CurrentDiskLimits_loopback:
  "CurrentDiskLimits (loopback ''/limit_disk'' disk_presence) c handle
     = Inr no_limits"
  by (simp add: CurrentDiskLimits_def post_def presence_defs)

lemma LimitDisk_loopback:
  "LimitDisk (loopback ''/limit_disk'' disk_presence) c handle disk
     = Inr all_present"
  by (simp add: LimitDisk_def post_def presence_defs)

lemma CurrentMemoryLimits_answered:
  assumes "WriteMessage env
           \<lparr>LimitMemoryRequest.Handle = Some handle, LimitMemoryRequest.LimitInBytes = None\<rparr> = Inr reqBody"
    and "Post env \<lparr>via = httpClient c, url = warden_url ''/limit_memory'',
                    bodyType = ''application/octet-stream'', body = Some reqBody\<rparr> = Inr resp"
  shows "CurrentMemoryLimits env c handle = response_path MemoryLimits_of env resp"
proof -
  have "CurrentMemoryLimits env c handle =
          decoded MemoryLimits_of
            (post env c ''/limit_memory''
           \<lparr>LimitMemoryRequest.Handle = Some handle, LimitMemoryRequest.LimitInBytes = None\<rparr>)"
    by (simp add: CurrentMemoryLimits_def limit_of_defs split: sum.splits)
  then show ?thesis
    using post_response_path [OF assms] by simp
qed

lemma LimitMemory_answered:
  assumes "WriteMessage env
           \<lparr>LimitMemoryRequest.Handle = Some handle,
            LimitMemoryRequest.LimitInBytes = Some (MemoryLimits.LimitInBytes memory)\<rparr> = Inr reqBody"
    and "Post env \<lparr>via = httpClient c, url = warden_url ''/limit_memory'',
                    bodyType = ''application/octet-stream'', body = Some reqBody\<rparr> = Inr resp"
  shows "LimitMemory env c handle memory = response_path MemoryLimits_of env resp"
proof -
  have "LimitMemory env c handle memory =
          decoded MemoryLimits_of
            (post env c ''/limit_memory''
           \<lparr>LimitMemoryRequest.Handle = Some handle,
            LimitMemoryRequest.LimitInBytes = Some (MemoryLimits.LimitInBytes memory)\<rparr>)"
    by (simp add: LimitMemory_def limit_of_defs split: sum.splits)
  then show ?thesis
    using post_response_path [OF assms] by simp
qed

lemma CurrentMemoryLimits_loopback:
  "CurrentMemoryLimits (loopback ''/limit_memory'' memory_presence) c handle
     = Inr \<lparr>MemoryLimits.LimitInBytes = 0\<rparr>"
  by (simp add: CurrentMemoryLimits_def post_def presence_defs)

lemma LimitMemory_loopback:
  "LimitMemory (loopback ''/limit_memory'' memory_presence) c handle memory
     = Inr \<lparr>MemoryLimits.LimitInBytes = 1\<rparr>"
  by (simp add: LimitMemory_def post_def presence_defs)

text \<open>
  C8. For each of the four limit kinds, the accessor encodes the request message in which
  the handle is set and every value field is unset, and the mutator the message of the
  same type with the handle and every value field set. Each posts its encoded message to
  the route of the kind, the same for both, and whatever response the server gives is
  turned into the result along the same response path, with the same function of the
  response message. Against the server that reports which value fields arrived populated,
  the accessor's request reports none and the mutator's reports all of them.
\<close>

theorem limit_get_and_set_share_shape_and_decoding:
  "(WriteMessage envb
           \<lparr>LimitBandwidthRequest.Handle = Some handle,
            LimitBandwidthRequest.Rate = None, LimitBandwidthRequest.Burst = None\<rparr> = Inr getb
      \<and> Post envb \<lparr>via = httpClient c, url = warden_url ''/limit_bandwidth'',
                   bodyType = ''application/octet-stream'', body = Some getb\<rparr> = Inr getRespb \<longrightarrow>
    CurrentBandwidthLimits envb c handle = response_path BandwidthLimits_of envb getRespb)
   \<and> (WriteMessage envb
           \<lparr>LimitBandwidthRequest.Handle = Some handle,
            LimitBandwidthRequest.Rate = Some (RateInBytesPerSecond bandwidth),
            LimitBandwidthRequest.Burst = Some (BurstRateInBytesPerSecond bandwidth)\<rparr> = Inr setb
      \<and> Post envb \<lparr>via = httpClient c, url = warden_url ''/limit_bandwidth'',
                   bodyType = ''application/octet-stream'', body = Some setb\<rparr> = Inr setRespb \<longrightarrow>
    LimitBandwidth envb c handle bandwidth = response_path BandwidthLimits_of envb setRespb)
   \<and> (WriteMessage envc
           \<lparr>LimitCpuRequest.Handle = Some handle, LimitCpuRequest.LimitInShares = None\<rparr> = Inr getc
      \<and> Post envc \<lparr>via = httpClient c, url = warden_url ''/limit_cpu'',
                   bodyType = ''application/octet-stream'', body = Some getc\<rparr> = Inr getRespc \<longrightarrow>
    CurrentCPULimits envc c handle = response_path CPULimits_of envc getRespc)
   \<and> (WriteMessage envc
           \<lparr>LimitCpuRequest.Handle = Some handle,
            LimitCpuRequest.LimitInShares = Some (CPULimits.LimitInShares cpu)\<rparr> = Inr setc
      \<and> Post envc \<lparr>via = httpClient c, url = warden_url ''/limit_cpu'',
                   bodyType = ''application/octet-stream'', body = Some setc\<rparr> = Inr setRespc \<longrightarrow>
    LimitCPU envc c handle cpu = response_path CPULimits_of envc setRespc)
   \<and> (WriteMessage envd
           \<lparr>LimitDiskRequest.Handle = Some handle,
            LimitDiskRequest.BlockSoft = None, LimitDiskRequest.BlockHard = None,
            LimitDiskRequest.InodeSoft = None, LimitDiskRequest.InodeHard = None,
            LimitDiskRequest.ByteSoft = None, LimitDiskRequest.ByteHard = None\<rparr> = Inr getd
      \<and> Post envd \<lparr>via = httpClient c, url = warden_url ''/limit_disk'',
                   bodyType = ''application/octet-stream'', body = Some getd\<rparr> = Inr getRespd \<longrightarrow>
    CurrentDiskLimits envd c handle = response_path DiskLimits_of envd getRespd)
   \<and> (WriteMessage envd
           \<lparr>LimitDiskRequest.Handle = Some handle,
            LimitDiskRequest.BlockSoft = Some (DiskLimits.BlockSoft disk),
            LimitDiskRequest.BlockHard = Some (DiskLimits.BlockHard disk),
            LimitDiskRequest.InodeSoft = Some (DiskLimits.InodeSoft disk),
            LimitDiskRequest.InodeHard = Some (DiskLimits.InodeHard disk),
            LimitDiskRequest.ByteSoft = Some (DiskLimits.ByteSoft disk),
            LimitDiskRequest.ByteHard = Some (DiskLimits.ByteHard disk)\<rparr> = Inr setd
      \<and> Post envd \<lparr>via = httpClient c, url = warden_url ''/limit_disk'',
                   bodyType = ''application/octet-stream'', body = Some setd\<rparr> = Inr setRespd \<longrightarrow>
    LimitDisk envd c handle disk = response_path DiskLimits_of envd setRespd)
   \<and> (WriteMessage envm
           \<lparr>LimitMemoryRequest.Handle = Some handle, LimitMemoryRequest.LimitInBytes = None\<rparr> = Inr getm
      \<and> Post envm \<lparr>via = httpClient c, url = warden_url ''/limit_memory'',
                   bodyType = ''application/octet-stream'', body = Some getm\<rparr> = Inr getRespm \<longrightarrow>
    CurrentMemoryLimits envm c handle = response_path MemoryLimits_of envm getRespm)
   \<and> (WriteMessage envm
           \<lparr>LimitMemoryRequest.Handle = Some handle,
            LimitMemoryRequest.LimitInBytes = Some (MemoryLimits.LimitInBytes memory)\<rparr> = Inr setm
      \<and> Post envm \<lparr>via = httpClient c, url = warden_url ''/limit_memory'',
                   bodyType = ''application/octet-stream'', body = Some setm\<rparr> = Inr setRespm \<longrightarrow>
    LimitMemory envm c handle memory = response_path MemoryLimits_of envm setRespm)
   \<and> CurrentBandwidthLimits (loopback ''/limit_bandwidth'' bandwidth_presence) c handle
       = Inr \<lparr>RateInBytesPerSecond = 0, BurstRateInBytesPerSecond = 0\<rparr>
   \<and> LimitBandwidth (loopback ''/limit_bandwidth'' bandwidth_presence) c handle bandwidth
       = Inr \<lparr>RateInBytesPerSecond = 1, BurstRateInBytesPerSecond = 1\<rparr>
   \<and> CurrentCPULimits (loopback ''/limit_cpu'' cpu_presence) c handle
       = Inr \<lparr>CPULimits.LimitInShares = 0\<rparr>
   \<and> LimitCPU (loopback ''/limit_cpu'' cpu_presence) c handle cpu
       = Inr \<lparr>CPULimits.LimitInShares = 1\<rparr>
   \<and> CurrentDiskLimits (loopback ''/limit_disk'' disk_presence) c handle
       = Inr no_limits
   \<and> LimitDisk (loopback ''/limit_disk'' disk_presence) c handle disk
       = Inr all_present
   \<and> CurrentMemoryLimits (loopback ''/limit_memory'' memory_presence) c handle
       = Inr \<lparr>MemoryLimits.LimitInBytes = 0\<rparr>
   \<and> LimitMemory (loopback ''/limit_memory'' memory_presence) c handle memory
       = Inr \<lparr>MemoryLimits.LimitInBytes = 1\<rparr>"
  using CurrentBandwidthLimits_answered [of envb handle getb c getRespb]
    LimitBandwidth_answered [of envb handle bandwidth setb c setRespb]
    CurrentCPULimits_answered [of envc handle getc c getRespc]
    LimitCPU_answered [of envc handle cpu setc c setRespc]
    CurrentDiskLimits_answered [of envd handle getd c getRespd]
    LimitDisk_answered [of envd handle disk setd c setRespd]
    CurrentMemoryLimits_answered [of envm handle getm c getRespm]
    LimitMemory_answered [of envm handle memory setm c setRespm]
    CurrentBandwidthLimits_loopback [of c handle]
    LimitBandwidth_loopback [of c handle bandwidth]
    CurrentCPULimits_loopback [of c handle]
    LimitCPU_loopback [of c handle cpu]
    CurrentDiskLimits_loopback [of c handle]
    LimitDisk_loopback [of c handle disk]
    CurrentMemoryLimits_loopback [of c handle]
    LimitMemory_loopback [of c handle memory]
  by blast

theorem CurrentMemoryLimits_answered_witness:
  "WriteMessage memory_wire
       \<lparr>LimitMemoryRequest.Handle = Some ''handle-a'', LimitMemoryRequest.LimitInBytes = None\<rparr>
     = Inr \<lparr>LimitMemoryRequest.Handle = Some ''handle-a'', LimitMemoryRequest.LimitInBytes = None\<rparr>
   \<and> Post memory_wire
       \<lparr>via = httpClient warden_conn, url = warden_url ''/limit_memory'',
        bodyType = ''application/octet-stream'',
        body = Some \<lparr>LimitMemoryRequest.Handle = Some ''handle-a'', LimitMemoryRequest.LimitInBytes = None\<rparr>\<rparr>
     = Inr (ok_response [\<lparr>LimitMemoryResponse.LimitInBytes = Some 4096\<rparr>])
   \<and> CurrentMemoryLimits memory_wire warden_conn ''handle-a'' = Inr \<lparr>MemoryLimits.LimitInBytes = 4096\<rparr>"
proof -
  let ?req = "\<lparr>LimitMemoryRequest.Handle = Some ''handle-a'', LimitMemoryRequest.LimitInBytes = None\<rparr>"
  let ?resp = "ok_response [\<lparr>LimitMemoryResponse.LimitInBytes = Some 4096\<rparr>]"
  have w: "WriteMessage memory_wire ?req = Inr ?req
           \<and> Post memory_wire
               \<lparr>via = httpClient warden_conn, url = warden_url ''/limit_memory'',
                bodyType = ''application/octet-stream'', body = Some ?req\<rparr> = Inr ?resp"
    by (simp add: memory_wire_def answering_def)
  have "CurrentMemoryLimits memory_wire warden_conn ''handle-a'' = response_path MemoryLimits_of memory_wire ?resp"
    using limit_get_and_set_share_shape_and_decoding
            [where envm = memory_wire and c = warden_conn and handle = "''handle-a''"
               and getm = ?req and getRespm = ?resp,
             THEN conjunct2, THEN conjunct2, THEN conjunct2, THEN conjunct2, THEN conjunct2,
             THEN conjunct2, THEN conjunct1, THEN mp, OF w] .
  then show ?thesis
    using w by (simp add: response_path_def limit_of_defs ok_response_def memory_wire_def answering_def
                  read_list_def GetUint_def)
qed

lemma LimitDisk_request:
  "LimitDisk env c handle limits =
     decoded DiskLimits_of (post env c ''/limit_disk'' (LimitDiskRequest_of handle limits))"
  by (simp add: LimitDisk_def LimitDiskRequest_of_def limit_of_defs split: sum.splits)

lemma post_echo_disk:
  "post echo_disk c route req =
     Inr \<lparr>LimitDiskResponse.BlockSoft = LimitDiskRequest.BlockSoft req,
          LimitDiskResponse.BlockHard = LimitDiskRequest.BlockHard req,
          LimitDiskResponse.InodeSoft = LimitDiskRequest.InodeSoft req,
          LimitDiskResponse.InodeHard = LimitDiskRequest.InodeHard req,
          LimitDiskResponse.ByteSoft = LimitDiskRequest.ByteSoft req,
          LimitDiskResponse.ByteHard = LimitDiskRequest.ByteHard req\<rparr>"
  by (simp add: post_def echo_disk_def)

lemma LimitDisk_echo: "LimitDisk echo_disk c handle limits = Inr limits"
  by (simp add: LimitDisk_request post_echo_disk LimitDiskRequest_of_def limit_of_defs GetUint_def)

lemma CurrentDiskLimits_echo: "CurrentDiskLimits echo_disk c handle = Inr no_limits"
  by (simp add: CurrentDiskLimits_def post_echo_disk GetUint_def no_limits_def)

text \<open>
  C2 as stated fails: \<^verbatim>\<open>LimitDisk\<close> of the client does no conversion. Against the
  server that echoes the fields it received, a byte-soft limit of 2048 with no block-soft
  limit comes back with block-soft 0, where a request carrying the block values of
  \<open>SetLimits_convert\<close> would come back with 2.
\<close>

theorem LimitDisk_sends_no_derived_blocks:
  "LimitDisk echo_disk warden_conn ''handle-a''
      \<lparr>DiskLimits.BlockSoft = 0, DiskLimits.BlockHard = 0, DiskLimits.InodeSoft = 0,
       DiskLimits.InodeHard = 0, DiskLimits.ByteSoft = 2048, DiskLimits.ByteHard = 0\<rparr>
     = Inr \<lparr>DiskLimits.BlockSoft = 0, DiskLimits.BlockHard = 0, DiskLimits.InodeSoft = 0,
            DiskLimits.InodeHard = 0, DiskLimits.ByteSoft = 2048, DiskLimits.ByteHard = 0\<rparr>
   \<and> decoded DiskLimits_of
        (post echo_disk warden_conn ''/limit_disk''
           (LimitDiskRequest_of ''handle-a''
              (SetLimits_convert
                 \<lparr>DiskLimits.BlockSoft = 0, DiskLimits.BlockHard = 0, DiskLimits.InodeSoft = 0,
                  DiskLimits.InodeHard = 0, DiskLimits.ByteSoft = 2048, DiskLimits.ByteHard = 0\<rparr>)))
     = Inr \<lparr>DiskLimits.BlockSoft = 2, DiskLimits.BlockHard = 0, DiskLimits.InodeSoft = 0,
            DiskLimits.InodeHard = 0, DiskLimits.ByteSoft = 2048, DiskLimits.ByteHard = 0\<rparr>"
  by (simp add: LimitDisk_echo post_echo_disk LimitDiskRequest_of_def limit_of_defs GetUint_def
        SetLimits_convert_def QUOTA_BLOCK_SIZE_def)

text \<open>
  C2, amended. On the set path the client encodes the six limit fields exactly as the
  caller supplied them, each marked present, and derives no block limit from a byte
  limit: the message it encodes and posts to \<^verbatim>\<open>/limit_disk\<close> is the one below, and a
  server that echoes the fields it received returns the caller's limits unchanged. On
  the get path the message has the handle and no other field populated, and nothing is
  derived either: a server that reports which fields arrived populated reports all six
  for \<^verbatim>\<open>LimitDisk\<close> and none for \<^verbatim>\<open>CurrentDiskLimits\<close>. The derivation is done on the
  host, by \<^verbatim>\<open>SetLimits\<close> of the quota backend: for a nonzero byte limit of at most
  \<open>2\<^sup>6\<^sup>4 - 1024\<close> the block argument of the \<^verbatim>\<open>setquota\<close> command it builds is
  \<open>ceil(bytes / 1024)\<close>.
\<close>

theorem LimitDisk_encodes_limits_as_supplied:
  "(WriteMessage env
        \<lparr>LimitDiskRequest.Handle = Some handle,
         LimitDiskRequest.BlockSoft = Some (DiskLimits.BlockSoft limits),
         LimitDiskRequest.BlockHard = Some (DiskLimits.BlockHard limits),
         LimitDiskRequest.InodeSoft = Some (DiskLimits.InodeSoft limits),
         LimitDiskRequest.InodeHard = Some (DiskLimits.InodeHard limits),
         LimitDiskRequest.ByteSoft = Some (DiskLimits.ByteSoft limits),
         LimitDiskRequest.ByteHard = Some (DiskLimits.ByteHard limits)\<rparr> = Inr setBody
      \<and> Post env \<lparr>via = httpClient c, url = warden_url ''/limit_disk'',
                    bodyType = ''application/octet-stream'', body = Some setBody\<rparr> = Inr setResp \<longrightarrow>
    LimitDisk env c handle limits = response_path DiskLimits_of env setResp)
   \<and> (WriteMessage env
        \<lparr>LimitDiskRequest.Handle = Some handle,
         LimitDiskRequest.BlockSoft = None, LimitDiskRequest.BlockHard = None,
         LimitDiskRequest.InodeSoft = None, LimitDiskRequest.InodeHard = None,
         LimitDiskRequest.ByteSoft = None, LimitDiskRequest.ByteHard = None\<rparr> = Inr getBody
      \<and> Post env \<lparr>via = httpClient c, url = warden_url ''/limit_disk'',
                    bodyType = ''application/octet-stream'', body = Some getBody\<rparr> = Inr getResp \<longrightarrow>
    CurrentDiskLimits env c handle = response_path DiskLimits_of env getResp)
   \<and> LimitDisk echo_disk c handle limits = Inr limits
   \<and> CurrentDiskLimits echo_disk c handle = Inr no_limits
   \<and> LimitDisk (loopback ''/limit_disk'' disk_presence) c handle limits = Inr all_present
   \<and> CurrentDiskLimits (loopback ''/limit_disk'' disk_presence) c handle = Inr no_limits
   \<and> (DiskLimits.ByteSoft limits \<noteq> 0 \<and> unat (DiskLimits.ByteSoft limits) \<le> 2 ^ 64 - 1024 \<longrightarrow>
      Args (SetLimits_Cmd m uid limits) ! 2 = fmt_d (ceil_div (unat (DiskLimits.ByteSoft limits)) 1024))
   \<and> (DiskLimits.ByteHard limits \<noteq> 0 \<and> unat (DiskLimits.ByteHard limits) \<le> 2 ^ 64 - 1024 \<longrightarrow>
      Args (SetLimits_Cmd m uid limits) ! 3 = fmt_d (ceil_div (unat (DiskLimits.ByteHard limits)) 1024))"
  using LimitDisk_answered [of env handle limits setBody c setResp]
    CurrentDiskLimits_answered [of env handle getBody c getResp]
    LimitDisk_echo [of c handle limits]
    CurrentDiskLimits_echo [of c handle]
    LimitDisk_loopback [of c handle limits]
    CurrentDiskLimits_loopback [of c handle]
    SetLimits_block_soft_in_range [of limits m uid]
    SetLimits_block_hard_in_range [of limits m uid]
  by blast

theorem LimitDisk_as_supplied_witness:
  "WriteMessage disk_wire
       \<lparr>LimitDiskRequest.Handle = Some ''handle-a'',
        LimitDiskRequest.BlockSoft = Some 0, LimitDiskRequest.BlockHard = Some 0,
        LimitDiskRequest.InodeSoft = Some 30, LimitDiskRequest.InodeHard = Some 40,
        LimitDiskRequest.ByteSoft = Some 10000, LimitDiskRequest.ByteHard = Some 20000\<rparr>
     = Inr \<lparr>LimitDiskRequest.Handle = Some ''handle-a'',
            LimitDiskRequest.BlockSoft = Some 0, LimitDiskRequest.BlockHard = Some 0,
            LimitDiskRequest.InodeSoft = Some 30, LimitDiskRequest.InodeHard = Some 40,
            LimitDiskRequest.ByteSoft = Some 10000, LimitDiskRequest.ByteHard = Some 20000\<rparr>
   \<and> LimitDisk disk_wire warden_conn ''handle-a''
       \<lparr>DiskLimits.BlockSoft = 0, DiskLimits.BlockHard = 0, DiskLimits.InodeSoft = 30,
        DiskLimits.InodeHard = 40, DiskLimits.ByteSoft = 10000, DiskLimits.ByteHard = 20000\<rparr>
     = Inr \<lparr>DiskLimits.BlockSoft = 10, DiskLimits.BlockHard = 20, DiskLimits.InodeSoft = 30,
            DiskLimits.InodeHard = 40, DiskLimits.ByteSoft = 0, DiskLimits.ByteHard = 0\<rparr>
   \<and> Args (SetLimits_Cmd (quota_manager_at []) 7
       \<lparr>DiskLimits.BlockSoft = 0, DiskLimits.BlockHard = 0, DiskLimits.InodeSoft = 30,
        DiskLimits.InodeHard = 40, DiskLimits.ByteSoft = 10000, DiskLimits.ByteHard = 20000\<rparr>) ! 2 = ''10''"
proof -
  let ?limits = "\<lparr>DiskLimits.BlockSoft = 0, DiskLimits.BlockHard = 0, DiskLimits.InodeSoft = 30,
                  DiskLimits.InodeHard = 40, DiskLimits.ByteSoft = 10000, DiskLimits.ByteHard = 20000\<rparr>"
  let ?req = "\<lparr>LimitDiskRequest.Handle = Some ''handle-a'',
               LimitDiskRequest.BlockSoft = Some (DiskLimits.BlockSoft ?limits),
               LimitDiskRequest.BlockHard = Some (DiskLimits.BlockHard ?limits),
               LimitDiskRequest.InodeSoft = Some (DiskLimits.InodeSoft ?limits),
               LimitDiskRequest.InodeHard = Some (DiskLimits.InodeHard ?limits),
               LimitDiskRequest.ByteSoft = Some (DiskLimits.ByteSoft ?limits),
               LimitDiskRequest.ByteHard = Some (DiskLimits.ByteHard ?limits)\<rparr>"
  let ?resp = "ok_response
       [\<lparr>LimitDiskResponse.BlockSoft = Some 10, LimitDiskResponse.BlockHard = Some 20,
         LimitDiskResponse.InodeSoft = Some 30, LimitDiskResponse.InodeHard = Some 40,
         LimitDiskResponse.ByteSoft = None, LimitDiskResponse.ByteHard = None\<rparr>]"
  have w: "WriteMessage disk_wire ?req = Inr ?req
           \<and> Post disk_wire
               \<lparr>via = httpClient warden_conn, url = warden_url ''/limit_disk'',
                bodyType = ''application/octet-stream'', body = Some ?req\<rparr> = Inr ?resp"
    by (simp add: disk_wire_def answering_def)
  have b: "DiskLimits.ByteSoft ?limits \<noteq> 0 \<and> unat (DiskLimits.ByteSoft ?limits) \<le> 2 ^ 64 - 1024"
    by simp
  note inst = LimitDisk_encodes_limits_as_supplied
               [where env = disk_wire and c = warden_conn and handle = "''handle-a''"
                  and limits = ?limits and setBody = ?req and setResp = ?resp
                  and m = "quota_manager_at []" and uid = 7]
  have "LimitDisk disk_wire warden_conn ''handle-a'' ?limits = response_path DiskLimits_of disk_wire ?resp"
    using inst [THEN conjunct1, THEN mp, OF w] .
  moreover have "Args (SetLimits_Cmd (quota_manager_at []) 7 ?limits) ! 2
                   = fmt_d (ceil_div (unat (DiskLimits.ByteSoft ?limits)) 1024)"
    using inst [THEN conjunct2, THEN conjunct2, THEN conjunct2, THEN conjunct2, THEN conjunct2,
               THEN conjunct2, THEN conjunct1, THEN mp, OF b] .
  ultimately show ?thesis
    using w by (simp add: response_path_def limit_of_defs ok_response_def disk_wire_def answering_def
                  read_list_def GetUint_def ceil_div_def fmt_d.simps digit_char_def)
qed

subsection \<open>HTTP status and the choice of client\<close>

lemma post_status:
  assumes "WriteMessage env req = Inr reqBody"
    and "Post env \<lparr>via = httpClient c, url = warden_url route,
                    bodyType = ''application/octet-stream'', body = Some reqBody\<rparr> = Inr httpResp"
  shows "post env c route req =
           (if 200 \<le> StatusCode httpResp \<and> StatusCode httpResp \<le> 299
            then fst (ReadMessage env (Body httpResp))
            else Inl (errors_New (Status httpResp)))"
  using assms by (auto simp: post_def)

lemma postWithProcessPayloadResponse_status:
  assumes "WriteMessage env req = Inr reqBody"
    and "Post env \<lparr>via = httpClient c, url = warden_url route,
                    bodyType = ''application/octet-stream'', body = Some reqBody\<rparr> = Inr httpResp"
  shows "postWithProcessPayloadResponse env c route req =
           (if StatusCode httpResp = 200 then Inr (Body httpResp) else Inl (errors_New (Status httpResp)))"
  using assms by (simp add: postWithProcessPayloadResponse_def http_StatusOK_def)

lemma Run_status:
  assumes "WriteMessage env (RunRequest_of handle spec) = Inr reqBody"
    and "Post env \<lparr>via = httpClient c, url = warden_url ''/run'',
                    bodyType = ''application/octet-stream'', body = Some reqBody\<rparr> = Inr httpResp"
  shows "Run n env c handle spec =
           (if StatusCode httpResp = 200
            then (case fst (ReadMessage env (Body httpResp)) of
                    Inl err \<Rightarrow> Inl err
                  | Inr firstResponse \<Rightarrow>
                      Inr (GetUint (ProcessPayload.ProcessId firstResponse),
                           streamPayloads n env (snd (ReadMessage env (Body httpResp)))))
            else Inl (errors_New (Status httpResp)))"
proof (cases "StatusCode httpResp = 200")
  case True
  then have "postWithProcessPayloadResponse env c ''/run'' (RunRequest_of handle spec) = Inr (Body httpResp)"
    using postWithProcessPayloadResponse_status [OF assms] by simp
  then show ?thesis
    using True Run_on_body by simp
next
  case False
  then have "postWithProcessPayloadResponse env c ''/run'' (RunRequest_of handle spec)
               = Inl (errors_New (Status httpResp))"
    using postWithProcessPayloadResponse_status [OF assms] by simp
  then show ?thesis
    using False by (simp add: Run_def)
qed

lemma Attach_status:
  assumes "WriteMessage env \<lparr>AttachRequest.Handle = Some handle, AttachRequest.ProcessId = Some processID\<rparr>
             = Inr reqBody"
    and "Post env \<lparr>via = httpClient c, url = warden_url ''/attach'',
                    bodyType = ''application/octet-stream'', body = Some reqBody\<rparr> = Inr httpResp"
  shows "Attach n env c handle processID =
           (if StatusCode httpResp = 200
            then Inr (streamPayloads n env (Body httpResp))
            else Inl (errors_New (Status httpResp)))"
  using postWithProcessPayloadResponse_status [OF assms] by (simp add: Attach_def)

lemma StreamOut_status:
  assumes "Post env \<lparr>via = noKeepaliveClient c,
                    url = \<lparr>Scheme = ''http'', Host = ''warden'', URL.Path = ''/stream_out'',
                           RawQuery = [(''handle'', handle), (''source'', srcPath)]\<rparr>,
                    bodyType = ''application/octet-stream'', body = None\<rparr> = Inr httpResp"
  shows "StreamOut env c handle srcPath =
           (if StatusCode httpResp = 200 then Inr (Body httpResp) else Inl (errors_New (Status httpResp)))"
  using assms by (simp add: StreamOut_def postWithStreamedResponse_def http_StatusOK_def)

lemma StreamIn_status:
  assumes "Post env \<lparr>via = noKeepaliveClient c,
                    url = \<lparr>Scheme = ''http'', Host = ''warden'', URL.Path = ''/stream_in'',
                           RawQuery = [(''destination'', dstPath), (''handle'', handle)]\<rparr>,
                    bodyType = ''application/octet-stream'', body = Some reader\<rparr> = Inr resp"
  shows "StreamIn env c handle dstPath reader =
           (if StatusCode resp = 200 then None else Some (errors_New (Status resp)))"
  using assms by (simp add: StreamIn_def postWithStreamedRequest_def http_StatusOK_def)

text \<open>
  C5 as stated fails for the streaming operations: a response with status 204 is an
  error to \<^verbatim>\<open>Run\<close>, \<^verbatim>\<open>Attach\<close>, \<^verbatim>\<open>StreamOut\<close> and \<^verbatim>\<open>StreamIn\<close>.
\<close>

theorem streaming_operations_refuse_204:
  "Run 4 (answering \<lparr>StatusCode = 204, Status = ''204 No Content'', Body = first_payload # hello_goodbye_42\<rparr>)
       warden_conn ''handle-a'' echo_spec = Inl (errors_New ''204 No Content'')
   \<and> Attach 4 (answering \<lparr>StatusCode = 204, Status = ''204 No Content'', Body = hello_goodbye_42\<rparr>)
       warden_conn ''handle-a'' 7 = Inl (errors_New ''204 No Content'')
   \<and> StreamOut (answering \<lparr>StatusCode = 204, Status = ''204 No Content'', Body = [()]\<rparr>
                  :: (unit, unit, unit list, unit) wire)
       warden_conn ''handle-a'' ''/tmp/file'' = Inl (errors_New ''204 No Content'')
   \<and> StreamIn (answering \<lparr>StatusCode = 204, Status = ''204 No Content'', Body = [()]\<rparr>
                  :: (unit, unit, unit list, unit) wire)
       warden_conn ''handle-a'' ''/tmp/file'' () = Some (errors_New ''204 No Content'')"
  by (simp add: Run_def Attach_def StreamOut_def StreamIn_def postWithProcessPayloadResponse_def
        postWithStreamedResponse_def postWithStreamedRequest_def answering_def http_StatusOK_def)

text \<open>
  C5, amended. When the request is encoded and answered, \<^verbatim>\<open>post\<close>, through which every
  simple request/response operation goes, takes any status from 200 to 299 as success and
  decodes the body, and turns any other status into an error carrying the status text.
  The streaming operations take exactly status 200 as success (\<^verbatim>\<open>Run\<close> then reads the
  first message, \<^verbatim>\<open>Attach\<close> and \<^verbatim>\<open>StreamOut\<close> hand the body on,
  \<^verbatim>\<open>StreamIn\<close> returns no error); every other status, the other 2xx ones included, is
  an error carrying the status text.
\<close>

theorem status_accepted_by_each_operation:
  "(WriteMessage env req = Inr reqBody
      \<and> Post env \<lparr>via = httpClient c, url = warden_url route,
                    bodyType = ''application/octet-stream'', body = Some reqBody\<rparr> = Inr httpResp \<longrightarrow>
    post env c route req =
      (if 200 \<le> StatusCode httpResp \<and> StatusCode httpResp \<le> 299
       then fst (ReadMessage env (Body httpResp))
       else Inl (errors_New (Status httpResp))))
   \<and> (WriteMessage envR (RunRequest_of handle spec) = Inr runBody
      \<and> Post envR \<lparr>via = httpClient c, url = warden_url ''/run'',
                     bodyType = ''application/octet-stream'', body = Some runBody\<rparr> = Inr runResp \<longrightarrow>
    Run n envR c handle spec =
      (if StatusCode runResp = 200
       then (case fst (ReadMessage envR (Body runResp)) of
               Inl err \<Rightarrow> Inl err
             | Inr firstResponse \<Rightarrow>
                 Inr (GetUint (ProcessPayload.ProcessId firstResponse),
                      streamPayloads n envR (snd (ReadMessage envR (Body runResp)))))
       else Inl (errors_New (Status runResp))))
   \<and> (WriteMessage envA \<lparr>AttachRequest.Handle = Some handle, AttachRequest.ProcessId = Some processID\<rparr>
         = Inr attachBody
      \<and> Post envA \<lparr>via = httpClient c, url = warden_url ''/attach'',
                     bodyType = ''application/octet-stream'', body = Some attachBody\<rparr> = Inr attachResp \<longrightarrow>
    Attach n envA c handle processID =
      (if StatusCode attachResp = 200
       then Inr (streamPayloads n envA (Body attachResp))
       else Inl (errors_New (Status attachResp))))
   \<and> (Post envS \<lparr>via = noKeepaliveClient c,
                    url = \<lparr>Scheme = ''http'', Host = ''warden'', URL.Path = ''/stream_out'',
                           RawQuery = [(''handle'', handle), (''source'', srcPath)]\<rparr>,
                    bodyType = ''application/octet-stream'', body = None\<rparr> = Inr outResp \<longrightarrow>
    StreamOut envS c handle srcPath =
      (if StatusCode outResp = 200 then Inr (Body outResp) else Inl (errors_New (Status outResp))))
   \<and> (Post envS \<lparr>via = noKeepaliveClient c,
                    url = \<lparr>Scheme = ''http'', Host = ''warden'', URL.Path = ''/stream_in'',
                           RawQuery = [(''destination'', dstPath), (''handle'', handle)]\<rparr>,
                    bodyType = ''application/octet-stream'', body = Some reader\<rparr> = Inr inResp \<longrightarrow>
    StreamIn envS c handle dstPath reader =
      (if StatusCode inResp = 200 then None else Some (errors_New (Status inResp))))"
  using post_status [of env req reqBody c route httpResp]
    Run_status [of envR handle spec runBody c runResp n]
    Attach_status [of envA handle processID attachBody c attachResp n]
    StreamOut_status [of envS c handle srcPath outResp]
    StreamIn_status [of envS c dstPath handle reader inResp]
  by blast

theorem post_accepts_204_witness:
  "post (answering \<lparr>StatusCode = 204, Status = ''204 No Content'', Body = [exit_payload 0]\<rparr>
           :: (unit, unit, ProcessPayload list, ProcessPayload) wire)
      warden_conn ''/ping'' () = Inr (exit_payload 0)
   \<and> post (answering \<lparr>StatusCode = 404, Status = ''404 Not Found'', Body = [exit_payload 0]\<rparr>
           :: (unit, unit, ProcessPayload list, ProcessPayload) wire)
      warden_conn ''/ping'' () = Inl (errors_New ''404 Not Found'')"
proof -
  let ?r204 = "\<lparr>StatusCode = 204, Status = ''204 No Content'', Body = [exit_payload 0]\<rparr>"
  let ?r404 = "\<lparr>StatusCode = 404, Status = ''404 Not Found'', Body = [exit_payload 0]\<rparr>"
  let ?e204 = "answering ?r204 :: (unit, unit, ProcessPayload list, ProcessPayload) wire"
  let ?e404 = "answering ?r404 :: (unit, unit, ProcessPayload list, ProcessPayload) wire"
  let ?call = "\<lparr>via = httpClient warden_conn, url = warden_url ''/ping'',
                 bodyType = ''application/octet-stream'', body = Some ()\<rparr>"
  have w204: "WriteMessage ?e204 () = Inr () \<and> Post ?e204 ?call = Inr ?r204"
    and w404: "WriteMessage ?e404 () = Inr () \<and> Post ?e404 ?call = Inr ?r404"
    by (simp_all add: answering_def)
  have "post ?e204 warden_conn ''/ping'' () = fst (ReadMessage ?e204 (Body ?r204))"
    using status_accepted_by_each_operation
            [of ?e204 "()" "()" warden_conn "''/ping''" ?r204, THEN conjunct1, THEN mp, OF w204]
    by simp
  moreover have "post ?e404 warden_conn ''/ping'' () = Inl (errors_New (Status ?r404))"
    using status_accepted_by_each_operation
            [of ?e404 "()" "()" warden_conn "''/ping''" ?r404, THEN conjunct1, THEN mp, OF w404]
    by simp
  ultimately show ?thesis
    by (simp add: answering_def read_list_def)
qed


lemma connection_New_clients:
  "DisableKeepAlives (Transport (noKeepaliveClient (connection_New network address)))
   \<and> \<not> DisableKeepAlives (Transport (httpClient (connection_New network address)))"
  by (simp add: connection_New_def)

text \<open>
  The request of each operation, as the environment sees it: the call of \<^verbatim>\<open>Post\<close> whose
  answer decides the result, and the client it is made on.
\<close>

lemma StreamIn_through_noKeepaliveClient:
  "StreamIn env c handle dstPath reader =
     (case Post env \<lparr>via = noKeepaliveClient c,
                     url = \<lparr>Scheme = ''http'', Host = ''warden'', URL.Path = ''/stream_in'',
                            RawQuery = [(''destination'', dstPath), (''handle'', handle)]\<rparr>,
                     bodyType = ''application/octet-stream'', body = Some reader\<rparr> of
        Inl err \<Rightarrow> Some err
      | Inr resp \<Rightarrow> if StatusCode resp = 200 then None else Some (errors_New (Status resp)))"
  by (simp add: StreamIn_def postWithStreamedRequest_def http_StatusOK_def split: sum.splits)

lemma StreamOut_through_noKeepaliveClient:
  "StreamOut env c handle srcPath =
     (case Post env \<lparr>via = noKeepaliveClient c,
                     url = \<lparr>Scheme = ''http'', Host = ''warden'', URL.Path = ''/stream_out'',
                            RawQuery = [(''handle'', handle), (''source'', srcPath)]\<rparr>,
                     bodyType = ''application/octet-stream'', body = None\<rparr> of
        Inl err \<Rightarrow> Inl err
      | Inr resp \<Rightarrow> if StatusCode resp = 200 then Inr (Body resp) else Inl (errors_New (Status resp)))"
  by (simp add: StreamOut_def postWithStreamedResponse_def http_StatusOK_def split: sum.splits)

lemma postWithProcessPayloadResponse_through_httpClient:
  assumes "WriteMessage env req = Inr reqBody"
  shows "postWithProcessPayloadResponse env c route req =
           (case Post env \<lparr>via = httpClient c, url = warden_url route,
                           bodyType = ''application/octet-stream'', body = Some reqBody\<rparr> of
              Inl err \<Rightarrow> Inl err
            | Inr resp \<Rightarrow> if StatusCode resp = 200 then Inr (Body resp) else Inl (errors_New (Status resp)))"
  using assms by (simp add: postWithProcessPayloadResponse_def http_StatusOK_def split: sum.splits)

lemma Run_through_httpClient:
  assumes "WriteMessage env (RunRequest_of handle spec) = Inr reqBody"
  shows "Run n env c handle spec =
           (case Post env \<lparr>via = httpClient c, url = warden_url ''/run'',
                           bodyType = ''application/octet-stream'', body = Some reqBody\<rparr> of
              Inl err \<Rightarrow> Inl err
            | Inr resp \<Rightarrow>
                if StatusCode resp = 200
                then (case fst (ReadMessage env (Body resp)) of
                        Inl err \<Rightarrow> Inl err
                      | Inr firstResponse \<Rightarrow>
                          Inr (GetUint (ProcessPayload.ProcessId firstResponse),
                               streamPayloads n env (snd (ReadMessage env (Body resp)))))
                else Inl (errors_New (Status resp)))"
proof (cases "Post env \<lparr>via = httpClient c, url = warden_url ''/run'',
                         bodyType = ''application/octet-stream'', body = Some reqBody\<rparr>")
  case (Inl err)
  then show ?thesis
    using assms by (simp add: Run_def postWithProcessPayloadResponse_def)
next
  case (Inr resp)
  then show ?thesis
    using Run_status [OF assms Inr, of n] by simp
qed

lemma Attach_through_httpClient:
  assumes "WriteMessage env \<lparr>AttachRequest.Handle = Some handle, AttachRequest.ProcessId = Some processID\<rparr>
             = Inr reqBody"
  shows "Attach n env c handle processID =
           (case Post env \<lparr>via = httpClient c, url = warden_url ''/attach'',
                           bodyType = ''application/octet-stream'', body = Some reqBody\<rparr> of
              Inl err \<Rightarrow> Inl err
            | Inr resp \<Rightarrow>
                if StatusCode resp = 200
                then Inr (streamPayloads n env (Body resp))
                else Inl (errors_New (Status resp)))"
  using postWithProcessPayloadResponse_through_httpClient [OF assms, of c "''/attach''"]
  by (simp add: Attach_def split: sum.splits)

lemma post_through_httpClient:
  assumes "WriteMessage env req = Inr reqBody"
  shows "post env c route req =
           (case Post env \<lparr>via = httpClient c, url = warden_url route,
                           bodyType = ''application/octet-stream'', body = Some reqBody\<rparr> of
              Inl err \<Rightarrow> Inl err
            | Inr resp \<Rightarrow>
                if 200 \<le> StatusCode resp \<and> StatusCode resp \<le> 299
                then fst (ReadMessage env (Body resp))
                else Inl (errors_New (Status resp)))"
  using assms by (auto simp: post_def split: sum.splits)

text \<open>
  On a network where every request fails with an error that names the kind of client
  it was made on, each operation returns the error of its own client.
\<close>

lemma client_probe_runs:
  "StreamIn client_probe (connection_New network address) handle dstPath reader
     = Some (Opaque ''keep-alive disabled'')"
  "StreamOut client_probe (connection_New network address) handle srcPath
     = Inl (Opaque ''keep-alive disabled'')"
  "Run n client_probe (connection_New network address) handle spec
     = Inl (Opaque ''keep-alive enabled'')"
  "Attach n client_probe (connection_New network address) handle processID
     = Inl (Opaque ''keep-alive enabled'')"
  "post client_probe (connection_New network address) route req
     = Inl (Opaque ''keep-alive enabled'')"
  by (simp_all add: StreamIn_def StreamOut_def Run_def Attach_def post_def postWithStreamedRequest_def
        postWithStreamedResponse_def postWithProcessPayloadResponse_def client_probe_def
        connection_New_def)

text \<open>
  C6 as stated fails for \<^verbatim>\<open>Run\<close> and \<^verbatim>\<open>Attach\<close>: a server that refuses every
  request made on a client with keep-alive disabled still serves both, so their requests
  come through the client that keeps connections alive; \<^verbatim>\<open>StreamOut\<close> is refused by
  the same server.
\<close>

theorem Run_and_Attach_keep_alive:
  "Run 4 (keepalive_only (ok_response (first_payload # hello_goodbye_42)))
       (connection_New ''unix'' ''/tmp/warden.sock'') ''handle-a'' echo_spec =
     Inr (7,
          [Send \<lparr>ProcessStream.Source = ProcessStreamSourceStdout, ProcessStream.Data = ''hello'' @ [newline],
                  ProcessStream.ExitStatus = None\<rparr>,
           Send \<lparr>ProcessStream.Source = ProcessStreamSourceStdout, ProcessStream.Data = ''goodbye'' @ [newline],
                  ProcessStream.ExitStatus = None\<rparr>,
           Send \<lparr>ProcessStream.Source = ProcessStreamSource_zero, ProcessStream.Data = [],
                  ProcessStream.ExitStatus = Some 42\<rparr>,
           CloseChan, CloseReader],
          True)
   \<and> Attach 1 (keepalive_only (ok_response [exit_payload 42]))
       (connection_New ''unix'' ''/tmp/warden.sock'') ''handle-a'' 7 =
     Inr ([Send \<lparr>ProcessStream.Source = ProcessStreamSource_zero, ProcessStream.Data = [],
                  ProcessStream.ExitStatus = Some 42\<rparr>,
           CloseChan, CloseReader],
          True)
   \<and> StreamOut (keepalive_only (ok_response [()]) :: (unit, unit, unit list, unit) wire)
       (connection_New ''unix'' ''/tmp/warden.sock'') ''handle-a'' ''/tmp/file'' =
     Inl (Opaque ''request made with keep-alive disabled'')"
proof -
  have read: "ReadMessage (keepalive_only r) = ReadMessage (answering r')" for r r' :: "ProcessPayload list http_Response"
    by (simp add: keepalive_only_def answering_def)
  have "streamPayloads 4 (keepalive_only (ok_response (first_payload # hello_goodbye_42))
                           :: (RunRequest, RunRequest, ProcessPayload list, ProcessPayload) wire) hello_goodbye_42
          = streamPayloads (Suc (Suc (Suc (Suc 0))))
              (answering (ok_response []) :: (RunRequest, RunRequest, ProcessPayload list, ProcessPayload) wire)
              hello_goodbye_42"
    using streamPayloads_cong [OF read] by (simp add: numeral_eq_Suc)
  then have run: "streamPayloads 4 (keepalive_only (ok_response (first_payload # hello_goodbye_42))
                           :: (RunRequest, RunRequest, ProcessPayload list, ProcessPayload) wire) hello_goodbye_42
          = ([Send \<lparr>ProcessStream.Source = ProcessStreamSourceStdout, ProcessStream.Data = ''hello'' @ [newline],
                     ProcessStream.ExitStatus = None\<rparr>,
              Send \<lparr>ProcessStream.Source = ProcessStreamSourceStdout, ProcessStream.Data = ''goodbye'' @ [newline],
                     ProcessStream.ExitStatus = None\<rparr>,
              Send \<lparr>ProcessStream.Source = ProcessStreamSource_zero, ProcessStream.Data = [],
                     ProcessStream.ExitStatus = Some 42\<rparr>,
              CloseChan, CloseReader], True)"
    by (simp only: streamPayloads_hello_goodbye_42)
  show ?thesis
    by (simp add: Run_def Attach_def StreamOut_def postWithProcessPayloadResponse_def
          postWithStreamedResponse_def keepalive_only_def connection_New_def ok_response_def
          http_StatusOK_def read_list_def first_payload_def exit_payload_def GetUint_def
          streamPayloads_Suc run [unfolded keepalive_only_def ok_response_def first_payload_def])
qed

text \<open>
  C6, amended. \<^verbatim>\<open>connection.New\<close> builds two clients; keep-alive is disabled on
  \<^verbatim>\<open>noKeepaliveClient\<close> and enabled on \<^verbatim>\<open>httpClient\<close>. \<^verbatim>\<open>StreamIn\<close> and
  \<^verbatim>\<open>StreamOut\<close> issue their request through \<^verbatim>\<open>noKeepaliveClient\<close>: the result of
  each is decided by the answer to that one call. \<^verbatim>\<open>Run\<close> and \<^verbatim>\<open>Attach\<close> issue
  theirs through \<^verbatim>\<open>httpClient\<close>, and so does \<^verbatim>\<open>post\<close>, through which the simple
  request/response operations go. On a network where every request fails with an error
  naming the kind of client it was made on, stream-in and stream-out report the client
  with keep-alive disabled; run, attach and a simple request report the one with
  keep-alive enabled.
\<close>

theorem client_of_each_streaming_operation:
  "DisableKeepAlives (Transport (noKeepaliveClient (connection_New network address)))
   \<and> \<not> DisableKeepAlives (Transport (httpClient (connection_New network address)))
   \<and> StreamIn envS c handle dstPath reader =
       (case Post envS \<lparr>via = noKeepaliveClient c,
                        url = \<lparr>Scheme = ''http'', Host = ''warden'', URL.Path = ''/stream_in'',
                               RawQuery = [(''destination'', dstPath), (''handle'', handle)]\<rparr>,
                        bodyType = ''application/octet-stream'', body = Some reader\<rparr> of
          Inl err \<Rightarrow> Some err
        | Inr resp \<Rightarrow> if StatusCode resp = 200 then None else Some (errors_New (Status resp)))
   \<and> StreamOut envS c handle srcPath =
       (case Post envS \<lparr>via = noKeepaliveClient c,
                        url = \<lparr>Scheme = ''http'', Host = ''warden'', URL.Path = ''/stream_out'',
                               RawQuery = [(''handle'', handle), (''source'', srcPath)]\<rparr>,
                        bodyType = ''application/octet-stream'', body = None\<rparr> of
          Inl err \<Rightarrow> Inl err
        | Inr resp \<Rightarrow> if StatusCode resp = 200 then Inr (Body resp) else Inl (errors_New (Status resp)))
   \<and> (WriteMessage envR (RunRequest_of handle spec) = Inr runBody \<longrightarrow>
      Run n envR c handle spec =
        (case Post envR \<lparr>via = httpClient c, url = warden_url ''/run'',
                         bodyType = ''application/octet-stream'', body = Some runBody\<rparr> of
           Inl err \<Rightarrow> Inl err
         | Inr resp \<Rightarrow>
             if StatusCode resp = 200
             then (case fst (ReadMessage envR (Body resp)) of
                     Inl err \<Rightarrow> Inl err
                   | Inr firstResponse \<Rightarrow>
                       Inr (GetUint (ProcessPayload.ProcessId firstResponse),
                            streamPayloads n envR (snd (ReadMessage envR (Body resp)))))
             else Inl (errors_New (Status resp))))
   \<and> (WriteMessage envA \<lparr>AttachRequest.Handle = Some handle, AttachRequest.ProcessId = Some processID\<rparr>
         = Inr attachBody \<longrightarrow>
      Attach n envA c handle processID =
        (case Post envA \<lparr>via = httpClient c, url = warden_url ''/attach'',
                         bodyType = ''application/octet-stream'', body = Some attachBody\<rparr> of
           Inl err \<Rightarrow> Inl err
         | Inr resp \<Rightarrow>
             if StatusCode resp = 200
             then Inr (streamPayloads n envA (Body resp))
             else Inl (errors_New (Status resp))))
   \<and> (WriteMessage env req = Inr reqBody \<longrightarrow>
      post env c route req =
        (case Post env \<lparr>via = httpClient c, url = warden_url route,
                        bodyType = ''application/octet-stream'', body = Some reqBody\<rparr> of
           Inl err \<Rightarrow> Inl err
         | Inr resp \<Rightarrow>
             if 200 \<le> StatusCode resp \<and> StatusCode resp \<le> 299
             then fst (ReadMessage env (Body resp))
             else Inl (errors_New (Status resp))))
   \<and> StreamIn client_probe (connection_New network address) handle dstPath reader'
       = Some (Opaque ''keep-alive disabled'')
   \<and> StreamOut client_probe (connection_New network address) handle srcPath
       = Inl (Opaque ''keep-alive disabled'')
   \<and> Run n client_probe (connection_New network address) handle spec
       = Inl (Opaque ''keep-alive enabled'')
   \<and> Attach n client_probe (connection_New network address) handle processID
       = Inl (Opaque ''keep-alive enabled'')
   \<and> post client_probe (connection_New network address) route req'
       = Inl (Opaque ''keep-alive enabled'')"
  using connection_New_clients [of network address]
    StreamIn_through_noKeepaliveClient [of envS c handle dstPath reader]
    StreamOut_through_noKeepaliveClient [of envS c handle srcPath]
    Run_through_httpClient [of envR handle spec runBody n c]
    Attach_through_httpClient [of envA handle processID attachBody n c]
    post_through_httpClient [of env req reqBody c route]
    client_probe_runs(1) [of network address handle dstPath reader']
    client_probe_runs(2) [of network address handle srcPath]
    client_probe_runs(3) [of n network address handle spec]
    client_probe_runs(4) [of n network address handle processID]
    client_probe_runs(5) [of network address route req']
  by blast

theorem Attach_through_httpClient_witness:
  "WriteMessage payload_attach_wire
       \<lparr>AttachRequest.Handle = Some ''handle-a'', AttachRequest.ProcessId = Some 7\<rparr>
     = Inr \<lparr>AttachRequest.Handle = Some ''handle-a'', AttachRequest.ProcessId = Some 7\<rparr>
   \<and> Post payload_attach_wire
       \<lparr>via = \<lparr>Transport = \<lparr>Dial = (''unix'', ''/tmp/warden.sock''), DisableKeepAlives = False\<rparr>\<rparr>,
        url = warden_url ''/attach'', bodyType = ''application/octet-stream'',
        body = Some \<lparr>AttachRequest.Handle = Some ''handle-a'', AttachRequest.ProcessId = Some 7\<rparr>\<rparr>
     = Inr (ok_response hello_goodbye_42)
   \<and> Attach 4 payload_attach_wire warden_conn ''handle-a'' 7 =
       Inr ([Send \<lparr>ProcessStream.Source = ProcessStreamSourceStdout, ProcessStream.Data = ''hello'' @ [newline],
                    ProcessStream.ExitStatus = None\<rparr>,
             Send \<lparr>ProcessStream.Source = ProcessStreamSourceStdout, ProcessStream.Data = ''goodbye'' @ [newline],
                    ProcessStream.ExitStatus = None\<rparr>,
             Send \<lparr>ProcessStream.Source = ProcessStreamSource_zero, ProcessStream.Data = [],
                    ProcessStream.ExitStatus = Some 42\<rparr>,
             CloseChan, CloseReader],
            True)"
proof -
  let ?req = "\<lparr>AttachRequest.Handle = Some ''handle-a'', AttachRequest.ProcessId = Some 7\<rparr>"
  have w: "WriteMessage payload_attach_wire ?req = Inr ?req"
    by (simp add: payload_attach_wire_def answering_def)
  have p: "Post payload_attach_wire
             \<lparr>via = httpClient warden_conn, url = warden_url ''/attach'',
              bodyType = ''application/octet-stream'', body = Some ?req\<rparr>
           = Inr (ok_response hello_goodbye_42)"
    by (simp add: payload_attach_wire_def answering_def)
  have s: "streamPayloads 4 payload_attach_wire hello_goodbye_42
           = ([Send \<lparr>ProcessStream.Source = ProcessStreamSourceStdout, ProcessStream.Data = ''hello'' @ [newline],
                      ProcessStream.ExitStatus = None\<rparr>,
               Send \<lparr>ProcessStream.Source = ProcessStreamSourceStdout, ProcessStream.Data = ''goodbye'' @ [newline],
                      ProcessStream.ExitStatus = None\<rparr>,
               Send \<lparr>ProcessStream.Source = ProcessStreamSource_zero, ProcessStream.Data = [],
                      ProcessStream.ExitStatus = Some 42\<rparr>,
               CloseChan, CloseReader], True)"
    by (simp add: numeral_eq_Suc payload_attach_wire_def streamPayloads_hello_goodbye_42)
  have "Attach 4 payload_attach_wire warden_conn ''handle-a'' 7 =
          Inr (streamPayloads 4 payload_attach_wire hello_goodbye_42)"
    using client_of_each_streaming_operation
            [where envA = payload_attach_wire and c = warden_conn and handle = "''handle-a''"
               and processID = 7 and attachBody = ?req and n = 4,
             THEN conjunct2, THEN conjunct2, THEN conjunct2, THEN conjunct2, THEN conjunct2,
             THEN conjunct1, THEN mp, OF w]
    by (simp add: p ok_response_def)
  then show ?thesis
    using w p by (simp add: s warden_conn_def connection_New_def)
qed

end
